theory Spec2Isabelle
  imports Complex_Main "HOL-Library.Word"
begin

section \<open>Pump guardian firmware (pump\_guardian\_2.ino): data model\<close>

subsection \<open>Floats, milliseconds, fault codes\<close>

text \<open>
  A C \<open>float\<close> is either not-a-number or a finite value. Every ordered comparison
  with NaN is false, as in IEEE 754; comparisons of finite values are exact. Infinities
  are not modelled.
\<close>

datatype cfloat = NaN | Fin real

definition isnan :: "cfloat \<Rightarrow> bool" where
  "isnan x = (case x of NaN \<Rightarrow> True | Fin _ \<Rightarrow> False)"

definition f_lt :: "cfloat \<Rightarrow> cfloat \<Rightarrow> bool" where
  "f_lt a b = (case a of NaN \<Rightarrow> False | Fin x \<Rightarrow> (case b of NaN \<Rightarrow> False | Fin y \<Rightarrow> x < y))"

definition f_le :: "cfloat \<Rightarrow> cfloat \<Rightarrow> bool" where
  "f_le a b = (case a of NaN \<Rightarrow> False | Fin x \<Rightarrow> (case b of NaN \<Rightarrow> False | Fin y \<Rightarrow> x \<le> y))"

definition f_gt :: "cfloat \<Rightarrow> cfloat \<Rightarrow> bool" where
  "f_gt a b = f_lt b a"

definition f_mul :: "cfloat \<Rightarrow> cfloat \<Rightarrow> cfloat" where
  "f_mul a b = (case a of NaN \<Rightarrow> NaN | Fin x \<Rightarrow> (case b of NaN \<Rightarrow> NaN | Fin y \<Rightarrow> Fin (x * y)))"

definition f_div :: "cfloat \<Rightarrow> cfloat \<Rightarrow> cfloat" where
  "f_div a b = (case a of NaN \<Rightarrow> NaN | Fin x \<Rightarrow>
                 (case b of NaN \<Rightarrow> NaN | Fin y \<Rightarrow> if y = 0 then NaN else Fin (x / y)))"

text \<open>\<open>unsigned long\<close> on the ESP32 is 32 bits wide: \<open>millis()\<close> arithmetic wraps.\<close>

type_synonym ms = "32 word"

definition MIN_OFF_MS :: ms where
  "MIN_OFF_MS = 5000"

definition FAULT_LOCK_MS :: ms where
  "FAULT_LOCK_MS = 30000"

record Thresholds =
  minVoltage :: cfloat
  maxVoltage :: cfloat
  maxCurrent_A :: cfloat
  minCurrent_A :: cfloat
  minPF :: cfloat

definition default_thresholds :: Thresholds where
  "default_thresholds = \<lparr> minVoltage = Fin 180, maxVoltage = Fin 260, maxCurrent_A = Fin 6,
     minCurrent_A = Fin (3 / 10), minPF = Fin (1 / 2) \<rparr>"

datatype FaultCode = FAULT_NONE | FAULT_DRYRUN | FAULT_OVERLOAD | FAULT_UNDERVOLT | FAULT_OVERVOLT

definition evaluateFaults :: "Thresholds \<Rightarrow> cfloat \<Rightarrow> cfloat \<Rightarrow> cfloat \<Rightarrow> FaultCode" where
  "evaluateFaults th V I PF =
     (if f_lt V (minVoltage th) then FAULT_UNDERVOLT
      else if f_gt V (maxVoltage th) then FAULT_OVERVOLT
      else if f_gt I (maxCurrent_A th) then FAULT_OVERLOAD
      else if f_le I (minCurrent_A th) \<and> f_le PF (minPF th) then FAULT_DRYRUN
      else FAULT_NONE)"

fun faultToString :: "FaultCode \<Rightarrow> string" where
  "faultToString FAULT_NONE = ''OK''"
| "faultToString FAULT_DRYRUN = ''DRY RUN''"
| "faultToString FAULT_OVERLOAD = ''OVERLOAD''"
| "faultToString FAULT_UNDERVOLT = ''UNDER VOLT''"
| "faultToString FAULT_OVERVOLT = ''OVER VOLT''"

subsection \<open>Scheduler\<close>

text \<open>
  The schedule fields are C \<open>int\<close>s; they are modelled as mathematical integers (signed
  overflow of \<open>onHour * 60 + onMinute\<close> is undefined in C++ and not modelled). The
  accessors of \<open>DateTime\<close> return \<open>uint8_t\<close>, promoted to \<open>int\<close> where they are used.
\<close>

record DailySchedule =
  onHour :: int
  onMinute :: int
  offHour :: int
  offMinute :: int
  enabled :: bool
  seasonStartMonth :: int
  seasonEndMonth :: int

definition default_schedule :: DailySchedule where
  "default_schedule = \<lparr> onHour = 6, onMinute = 0, offHour = 6, offMinute = 30, enabled = False,
     seasonStartMonth = 1, seasonEndMonth = 12 \<rparr>"

record DateTime =
  month :: "8 word"
  hour :: "8 word"
  minute :: "8 word"

definition seasonAllows :: "DailySchedule \<Rightarrow> DateTime \<Rightarrow> bool" where
  "seasonAllows sc now =
     (let m = uint (month now) in
      if seasonStartMonth sc \<le> seasonEndMonth sc
      then (m \<ge> seasonStartMonth sc \<and> m \<le> seasonEndMonth sc)
      else (m \<ge> seasonStartMonth sc \<or> m \<le> seasonEndMonth sc))"

definition isWithinOnWindow :: "DailySchedule \<Rightarrow> DateTime \<Rightarrow> bool" where
  "isWithinOnWindow sc now =
     (if \<not> enabled sc then False
      else if \<not> seasonAllows sc now then False
      else (let curM = uint (hour now) * 60 + uint (minute now);
                onM = onHour sc * 60 + onMinute sc;
                offM = offHour sc * 60 + offMinute sc
            in if onM = offM then False
               else if onM < offM then (curM \<ge> onM \<and> curM < offM)
               else (curM \<ge> onM \<or> curM < offM)))"

subsection \<open>Controller state\<close>

record State =
  relayCommand :: bool
  relayPhysical :: bool
  manualPriority :: bool
  lastFault :: string
  hp :: cfloat

text \<open>
  SPIFFS: a mounted flag (\<open>SPIFFS.begin\<close> can fail) and the files, each a byte string.
  A file opens for reading when the file system is mounted and the file exists, and for
  appending when the file system is mounted.
\<close>

record spiffs =
  mounted :: bool
  files :: "string \<Rightarrow> string option"

definition LOG_PATH :: string where
  "LOG_PATH = ''/logs.jsonl''"

definition LOG_PENDING :: string where
  "LOG_PENDING = ''/logs_pending.jsonl''"

definition fs_open_read :: "spiffs \<Rightarrow> string \<Rightarrow> string option" where
  "fs_open_read f path = (if mounted f then files f path else None)"

definition fs_exists :: "spiffs \<Rightarrow> string \<Rightarrow> bool" where
  "fs_exists f path = (fs_open_read f path \<noteq> None)"

definition fs_remove :: "string \<Rightarrow> spiffs \<Rightarrow> spiffs" where
  "fs_remove path f = (if mounted f then f\<lparr>files := (files f)(path := None)\<rparr> else f)"

definition fs_rename :: "string \<Rightarrow> string \<Rightarrow> spiffs \<Rightarrow> spiffs" where
  "fs_rename src dst f =
     (case fs_open_read f src of
        None \<Rightarrow> f
      | Some c \<Rightarrow> f\<lparr>files := (files f)(dst := Some c, src := None)\<rparr>)"

text \<open>JSON values as ArduinoJson holds them; \<open>jget\<close> is \<open>operator[]\<close> with a key.\<close>

datatype json = JNull | JBool bool | JNum cfloat | JStr string | JArr "json list"
  | JObj "(string \<times> json) list"

definition jget :: "json \<Rightarrow> string \<Rightarrow> json" where
  "jget v k =
     (case v of
        JObj kvs \<Rightarrow> (case map_of kvs k of None \<Rightarrow> JNull | Some x \<Rightarrow> x)
      | _ \<Rightarrow> JNull)"

definition isNull :: "json \<Rightarrow> bool" where
  "isNull v = (v = JNull)"

definition is_object :: "json \<Rightarrow> bool" where
  "is_object v = (case v of JObj _ \<Rightarrow> True | _ \<Rightarrow> False)"

text \<open>
  Functions of the libraries the firmware links against, taken as parameters:
  ArduinoJson's conversions \<open>as<float>()\<close> and \<open>as<bool>()\<close>, \<open>atoi\<close> applied to
  \<open>as<const char*>()\<close>, \<open>deserializeJson\<close> on one line of text, and the decimal
  formatting that \<open>String\<close> concatenation applies to a float and to an unsigned long.
\<close>

record Lib =
  as_float :: "json \<Rightarrow> cfloat"
  as_bool :: "json \<Rightarrow> bool"
  atoi_cstr :: "json \<Rightarrow> int"
  deserializeJson :: "string \<Rightarrow> json option"
  fmt_float :: "cfloat \<Rightarrow> string"
  fmt_ulong :: "ms \<Rightarrow> string"

text \<open>
  The globals of the sketch. \<open>relayPin\<close> is the level last written to the relay pin,
  \<open>sV\<close> to \<open>sE\<close> are the static locals of \<open>loop\<close>, \<open>prefs\<close> is what \<open>savePrefs\<close> last
  wrote, and \<open>synced\<close> collects the log records the remote service has accepted.
\<close>

record sys =
  thresholds :: Thresholds
  scheduleCfg :: DailySchedule
  state :: State
  relayPin :: bool
  lastOffMs :: ms
  faultLockUntil :: ms
  lastSampleMs :: ms
  lastLcdMs :: ms
  lastNetMs :: ms
  lastRotateMs :: ms
  wasRunning :: bool
  runStartMs :: ms
  sV :: cfloat
  sI :: cfloat
  sP :: cfloat
  sPF :: cfloat
  sE :: cfloat
  fs :: spiffs
  prefs :: "(Thresholds \<times> DailySchedule \<times> cfloat) option"
  synced :: "json list"

definition RELAY_ACTIVE_LOW :: bool where
  "RELAY_ACTIVE_LOW = True"

definition setRelay :: "bool \<Rightarrow> sys \<Rightarrow> sys" where
  "setRelay on s =
     (let s1 = s\<lparr>state := (state s)\<lparr>relayCommand := on\<rparr>\<rparr>;
          s2 = s1\<lparr>relayPin := (if RELAY_ACTIVE_LOW then \<not> on else on)\<rparr>
      in s2\<lparr>state := (state s2)\<lparr>relayPhysical := on\<rparr>\<rparr>)"

definition savePrefs :: "sys \<Rightarrow> sys" where
  "savePrefs s = s\<lparr>prefs := Some (thresholds s, scheduleCfg s, hp (state s))\<rparr>"

subsection \<open>Logging\<close>

definition dq :: char where
  "dq = CHR 0x22"

definition nl :: char where
  "nl = CHR 0x0A"

definition log_line :: "string \<Rightarrow> string \<Rightarrow> string \<Rightarrow> string" where
  "log_line ts type msg =
     ''{'' @ [dq] @ ''ts'' @ [dq] @ '':'' @ [dq] @ ts @ [dq] @ '','' @ [dq] @ ''type'' @ [dq]
     @ '':'' @ [dq] @ type @ [dq] @ '','' @ [dq] @ ''msg'' @ [dq] @ '':'' @ [dq] @ msg @ [dq]
     @ ''}'' @ [nl]"

definition appendLog :: "string \<Rightarrow> string \<Rightarrow> string \<Rightarrow> spiffs \<Rightarrow> spiffs" where
  "appendLog ts type msg f =
     (if \<not> mounted f then f
      else f\<lparr>files := (files f)(LOG_PATH :=
             Some ((case files f LOG_PATH of None \<Rightarrow> [] | Some c \<Rightarrow> c) @ log_line ts type msg))\<rparr>)"

definition rotateLogsIfTooBig :: "nat \<Rightarrow> spiffs \<Rightarrow> spiffs" where
  "rotateLogsIfTooBig maxBytes f =
     (case fs_open_read f LOG_PATH of
        None \<Rightarrow> f
      | Some c \<Rightarrow>
          if length c < maxBytes then f
          else fs_rename LOG_PATH LOG_PENDING (fs_remove LOG_PENDING f))"

definition maxBytes_default :: nat where
  "maxBytes_default = 200 * 1024"

definition connectWiFi :: "bool \<Rightarrow> string \<Rightarrow> sys \<Rightarrow> sys" where
  "connectWiFi up ts s =
     (if up then s\<lparr>fs := appendLog ts ''net'' ''WiFi up'' (fs s)\<rparr>
      else s\<lparr>fs := appendLog ts ''net'' ''WiFi fail'' (fs s)\<rparr>)"

definition estimateEfficiency :: "sys \<Rightarrow> cfloat \<Rightarrow> cfloat" where
  "estimateEfficiency s measuredW =
     (let ratedW = f_mul (hp (state s)) (Fin 746)
      in if f_le ratedW (Fin 1) then Fin 0 else f_div measuredW ratedW)"

subsection \<open>Remote configuration and control\<close>

text \<open>
  The \<open>getField\<close> helpers return \<open>false\<close> and leave \<open>out\<close> alone, or return \<open>true\<close>
  and set it: \<open>None\<close> and \<open>Some\<close> here.
\<close>

definition getFieldBool :: "Lib \<Rightarrow> json \<Rightarrow> string \<Rightarrow> string \<Rightarrow> string \<Rightarrow> bool option" where
  "getFieldBool L v a b c =
     (if \<not> is_object v then None
      else let f = jget v ''fields'' in
        if isNull f then None
        else let m1 = jget (jget (jget f a) ''mapValue'') ''fields'' in
          if isNull m1 then None
          else let m2 = jget (jget (jget m1 b) ''mapValue'') ''fields'' in
            if isNull m2 then None
            else let val = jget (jget m2 c) ''booleanValue'' in
              if isNull val then None else Some (as_bool L val))"

definition getFieldInt :: "Lib \<Rightarrow> json \<Rightarrow> string \<Rightarrow> string \<Rightarrow> string \<Rightarrow> int option" where
  "getFieldInt L v a b c =
     (let f = jget v ''fields'' in
        if isNull f then None
        else let m1 = jget (jget (jget f a) ''mapValue'') ''fields'' in
          if isNull m1 then None
          else let m2 = jget (jget (jget m1 b) ''mapValue'') ''fields'' in
            if isNull m2 then None
            else let val = jget (jget m2 c) ''integerValue'' in
              if isNull val then None else Some (atoi_cstr L val))"

definition getFieldDouble :: "Lib \<Rightarrow> json \<Rightarrow> string \<Rightarrow> string \<Rightarrow> string \<Rightarrow> cfloat option" where
  "getFieldDouble L v a b c =
     (let f = jget v ''fields'' in
        if isNull f then None
        else let m1 = jget (jget (jget f a) ''mapValue'') ''fields'' in
          if isNull m1 then None
          else let m2 = jget (jget (jget m1 b) ''mapValue'') ''fields'' in
            if isNull m2 then None
            else let val = jget (jget m2 c) ''doubleValue'' in
              if isNull val then None else Some (as_float L val))"

definition getFieldDouble1 :: "Lib \<Rightarrow> json \<Rightarrow> string \<Rightarrow> string \<Rightarrow> cfloat option" where
  "getFieldDouble1 L v a c =
     (let f = jget v ''fields'' in
        if isNull f then None
        else let m1 = jget (jget (jget f a) ''mapValue'') ''fields'' in
          if isNull m1 then None
          else let val = jget (jget m1 c) ''doubleValue'' in
            if isNull val then None else Some (as_float L val))"

text \<open>Lines 930 to 950 of \<open>firestoreFetchAndApply\<close>: thresholds, schedule, hp, \<open>savePrefs\<close>.\<close>

definition applyThresholds :: "Lib \<Rightarrow> json \<Rightarrow> Thresholds \<Rightarrow> Thresholds" where
  "applyThresholds L rootv th =
     (let t1 = (case getFieldDouble L rootv ''config'' ''thresholds'' ''maxCurrent_A'' of
                  None \<Rightarrow> th | Some v \<Rightarrow> th\<lparr>maxCurrent_A := v\<rparr>);
          t2 = (case getFieldDouble L rootv ''config'' ''thresholds'' ''minPF'' of
                  None \<Rightarrow> t1 | Some v \<Rightarrow> t1\<lparr>minPF := v\<rparr>);
          t3 = (case getFieldDouble L rootv ''config'' ''thresholds'' ''minCurrent_A'' of
                  None \<Rightarrow> t2 | Some v \<Rightarrow> t2\<lparr>minCurrent_A := v\<rparr>);
          t4 = (case getFieldDouble L rootv ''config'' ''thresholds'' ''minVoltage'' of
                  None \<Rightarrow> t3 | Some v \<Rightarrow> t3\<lparr>minVoltage := v\<rparr>)
      in (case getFieldDouble L rootv ''config'' ''thresholds'' ''maxVoltage'' of
            None \<Rightarrow> t4 | Some v \<Rightarrow> t4\<lparr>maxVoltage := v\<rparr>))"

definition applySchedule :: "Lib \<Rightarrow> json \<Rightarrow> DailySchedule \<Rightarrow> DailySchedule" where
  "applySchedule L rootv sc =
     (let c1 = (case getFieldBool L rootv ''config'' ''schedule'' ''enabled'' of
                  None \<Rightarrow> sc | Some bv \<Rightarrow> sc\<lparr>enabled := bv\<rparr>);
          c2 = (case getFieldInt L rootv ''config'' ''schedule'' ''onHour'' of
                  None \<Rightarrow> c1 | Some iv \<Rightarrow> c1\<lparr>onHour := iv\<rparr>);
          c3 = (case getFieldInt L rootv ''config'' ''schedule'' ''onMinute'' of
                  None \<Rightarrow> c2 | Some iv \<Rightarrow> c2\<lparr>onMinute := iv\<rparr>);
          c4 = (case getFieldInt L rootv ''config'' ''schedule'' ''offHour'' of
                  None \<Rightarrow> c3 | Some iv \<Rightarrow> c3\<lparr>offHour := iv\<rparr>);
          c5 = (case getFieldInt L rootv ''config'' ''schedule'' ''offMinute'' of
                  None \<Rightarrow> c4 | Some iv \<Rightarrow> c4\<lparr>offMinute := iv\<rparr>);
          c6 = (case getFieldInt L rootv ''config'' ''schedule'' ''seasonStartMonth'' of
                  None \<Rightarrow> c5 | Some iv \<Rightarrow> c5\<lparr>seasonStartMonth := iv\<rparr>)
      in (case getFieldInt L rootv ''config'' ''schedule'' ''seasonEndMonth'' of
            None \<Rightarrow> c6 | Some iv \<Rightarrow> c6\<lparr>seasonEndMonth := iv\<rparr>))"

definition applyConfig :: "Lib \<Rightarrow> json \<Rightarrow> sys \<Rightarrow> sys" where
  "applyConfig L rootv s =
     (let s1 = s\<lparr>thresholds := applyThresholds L rootv (thresholds s)\<rparr>;
          s2 = s1\<lparr>scheduleCfg := applySchedule L rootv (scheduleCfg s1)\<rparr>;
          s3 = (case getFieldDouble1 L rootv ''config'' ''hp'' of
                  None \<Rightarrow> s2 | Some v \<Rightarrow> s2\<lparr>state := (state s2)\<lparr>hp := v\<rparr>\<rparr>)
      in savePrefs s3)"

text \<open>Lines 952 to 961: the three control flags \<open>(forceOn, forceOff, clearManual)\<close>.\<close>

definition readControl :: "Lib \<Rightarrow> json \<Rightarrow> bool \<times> bool \<times> bool" where
  "readControl L rootv =
     (let fields = jget rootv ''fields'' in
        if isNull fields then (False, False, False)
        else let control = jget (jget (jget fields ''control'') ''mapValue'') ''fields'' in
          if isNull control then (False, False, False)
          else
            (if isNull (jget control ''forceOn'') then False
             else as_bool L (jget (jget control ''forceOn'') ''booleanValue''),
             if isNull (jget control ''forceOff'') then False
             else as_bool L (jget (jget control ''forceOff'') ''booleanValue''),
             if isNull (jget control ''clearManual'') then False
             else as_bool L (jget (jget control ''clearManual'') ''booleanValue'')))"

text \<open>
  Lines 962 to 970. The PATCH that resets the three flags in the remote document
  (lines 971 to 983) changes nothing on the device and is left out.
\<close>

definition applyControl :: "bool \<times> bool \<times> bool \<Rightarrow> sys \<Rightarrow> sys" where
  "applyControl ctl s =
     (case ctl of (forceOn, forceOff, clearManual) \<Rightarrow>
        let s1 = (if clearManual then s\<lparr>state := (state s)\<lparr>manualPriority := False\<rparr>\<rparr> else s);
            s2 = (if forceOn \<and> \<not> forceOff
                  then setRelay True (s1\<lparr>state := (state s1)\<lparr>manualPriority := False\<rparr>\<rparr>)
                  else s1)
        in (if forceOff \<and> \<not> forceOn
            then setRelay False (s2\<lparr>state := (state s2)\<lparr>manualPriority := False\<rparr>\<rparr>)
            else s2))"

text \<open>
  \<open>firestoreFetchAndApply\<close>: \<open>signIn\<close> is the result of \<open>firebaseSignIn()\<close>, \<open>got\<close> that of
  \<open>httpGET\<close>, and \<open>doc\<close> the parsed response (\<open>None\<close> on a deserialization error).
\<close>

definition firestoreFetchAndApply :: "Lib \<Rightarrow> bool \<Rightarrow> bool \<Rightarrow> json option \<Rightarrow> sys \<Rightarrow> sys" where
  "firestoreFetchAndApply L signIn got doc s =
     (if \<not> signIn then s
      else if \<not> got then s
      else (case doc of
              None \<Rightarrow> s
            | Some rootv \<Rightarrow> applyControl (readControl L rootv) (applyConfig L rootv s)))"

subsection \<open>Draining the pending log\<close>

definition httpOK :: "int \<Rightarrow> bool" where
  "httpOK code = (code \<ge> 200 \<and> code < 300)"

definition readStringUntil :: "char \<Rightarrow> string \<Rightarrow> string \<times> string" where
  "readStringUntil c content = (takeWhile (\<lambda>x. x \<noteq> c) content, drop 1 (dropWhile (\<lambda>x. x \<noteq> c) content))"

definition cstr :: "json \<Rightarrow> json" where
  "cstr v = (case v of JStr t \<Rightarrow> JStr t | _ \<Rightarrow> JNull)"

definition upload_body :: "json \<Rightarrow> json" where
  "upload_body d =
     JObj [(''fields'', JObj
       [(''timestamp'', JObj [(''timestampValue'', cstr (jget d ''ts''))]),
        (''eventType'', JObj [(''stringValue'', cstr (jget d ''type''))]),
        (''eventMsg'', JObj [(''stringValue'', cstr (jget d ''msg''))])])]"

text \<open>
  The \<open>while (f.available())\<close> loop of lines 1144 to 1160 over the bytes still unread.
  \<open>post k\<close> is the HTTP status of the \<open>k\<close>-th POST of the cycle. The result lists every
  POST made, in order: its body and what \<open>httpPOST\<close> returned (the loop ignores it).
\<close>

function uploadPending :: "Lib \<Rightarrow> (nat \<Rightarrow> int) \<Rightarrow> nat \<Rightarrow> string \<Rightarrow> (json \<times> bool) list" where
  "uploadPending L post k content =
     (if content = [] then []
      else if length (fst (readStringUntil nl content)) < 5
      then uploadPending L post k (snd (readStringUntil nl content))
      else (case deserializeJson L (fst (readStringUntil nl content)) of
              None \<Rightarrow> uploadPending L post k (snd (readStringUntil nl content))
            | Some d \<Rightarrow> (upload_body d, httpOK (post k))
                        # uploadPending L post (Suc k) (snd (readStringUntil nl content))))"
  by pat_completeness auto
termination
proof (relation "measure (\<lambda>(L, post, k, content). length content)")
  show "wf (measure (\<lambda>(L, post, k, content). length content))"
    by simp
next
  fix L :: Lib and post :: "nat \<Rightarrow> int" and k :: nat and content :: string
  assume ne: "content \<noteq> []"
  have le: "length (dropWhile (\<lambda>x. x \<noteq> nl) content) \<le> length content"
    by (rule length_dropWhile_le)
  have pos: "0 < length content"
    using ne by simp
  have "length (dropWhile (\<lambda>x. x \<noteq> nl) content) - 1 < length content"
    using le pos by arith
  then have shrink: "length (snd (readStringUntil nl content)) < length content"
    by (simp add: readStringUntil_def)
  show "((L, post, k, snd (readStringUntil nl content)), (L, post, k, content))
        \<in> measure (\<lambda>(L, post, k, content). length content)"
    using shrink by simp
  show "((L, post, k, snd (readStringUntil nl content)), (L, post, k, content))
        \<in> measure (\<lambda>(L, post, k, content). length content)"
    using shrink by simp
  show "((L, post, Suc k, snd (readStringUntil nl content)), (L, post, k, content))
        \<in> measure (\<lambda>(L, post, k, content). length content)"
    using shrink by simp
qed

declare uploadPending.simps [simp del]

text \<open>Lines 1141 to 1164: the offline sync of one network cycle.\<close>

definition syncPending :: "Lib \<Rightarrow> (nat \<Rightarrow> int) \<Rightarrow> sys \<Rightarrow> sys" where
  "syncPending L post s =
     (if fs_exists (fs s) LOG_PENDING
      then (case fs_open_read (fs s) LOG_PENDING of
              None \<Rightarrow> s
            | Some content \<Rightarrow>
                s\<lparr>synced := synced s @ map fst (filter snd (uploadPending L post 0 content)),
                  fs := fs_remove LOG_PENDING (fs s)\<rparr>)
      else s)"

subsection \<open>The control loop\<close>

text \<open>
  What one pass of \<open>loop()\<close> reads from outside: the debounced button edges; the
  \<open>millis()\<close> readings, one per call site (\<open>ms_start_a\<close> and \<open>ms_start_b\<close> in the START
  condition of line 1042, \<open>ms_stop\<close> at line 1052, \<open>ms_now\<close> at line 1056); the meter
  readings; the clock (\<open>getNow()\<close>) and the timestamp \<open>nowRFC3339UTC()\<close> puts into log
  lines of this pass; the Wi-Fi status before and after \<open>connectWiFi\<close>; \<open>firebaseSignIn\<close>
  as \<open>loop\<close> sees it and as \<open>firestoreFetchAndApply\<close> sees it; the fetched document;
  and the HTTP status of each log upload.
\<close>

record Inputs =
  startFell :: bool
  stopFell :: bool
  ms_start_a :: ms
  ms_start_b :: ms
  ms_stop :: ms
  ms_now :: ms
  pV :: cfloat
  pI :: cfloat
  pP :: cfloat
  pPF :: cfloat
  pE :: cfloat
  rtc :: DateTime
  ts :: string
  wifi_up :: bool
  wifi_connects :: bool
  signIn_loop :: bool
  signIn_fetch :: bool
  get_ok :: bool
  doc :: "json option"
  post_code :: "nat \<Rightarrow> int"

text \<open>Lines 1040 to 1054: the manual buttons.\<close>

definition startButton :: "Inputs \<Rightarrow> sys \<Rightarrow> sys" where
  "startButton i s =
     (if startFell i then
        (let s1 = s\<lparr>state := (state s)\<lparr>manualPriority := True\<rparr>\<rparr> in
           if ms_start_a i - lastOffMs s1 \<ge> MIN_OFF_MS \<and> ms_start_b i \<ge> faultLockUntil s1
           then (let s2 = setRelay True s1 in s2\<lparr>fs := appendLog (ts i) ''button'' ''Manual ON'' (fs s2)\<rparr>)
           else s1\<lparr>fs := appendLog (ts i) ''button'' ''ON blocked (cooldown/lockout)'' (fs s1)\<rparr>)
      else s)"

definition stopButton :: "Inputs \<Rightarrow> sys \<Rightarrow> sys" where
  "stopButton i s =
     (if stopFell i then
        (let s1 = s\<lparr>state := (state s)\<lparr>manualPriority := True\<rparr>\<rparr>;
             s2 = setRelay False s1;
             s3 = s2\<lparr>lastOffMs := ms_stop i\<rparr>
         in s3\<lparr>fs := appendLog (ts i) ''button'' ''Manual OFF'' (fs s3)\<rparr>)
      else s)"

definition buttons :: "Inputs \<Rightarrow> sys \<Rightarrow> sys" where
  "buttons i s = stopButton i (startButton i s)"

text \<open>Lines 1064 to 1073: the meter readings, NaN replaced.\<close>

definition readMeter :: "Inputs \<Rightarrow> sys \<Rightarrow> sys" where
  "readMeter i s =
     s\<lparr>sV := (if isnan (pV i) then Fin 0 else pV i),
       sI := (if isnan (pI i) then Fin 0 else pI i),
       sP := (if isnan (pP i) then Fin 0 else pP i),
       sPF := (if isnan (pPF i) then Fin 1 else pPF i),
       sE := (if isnan (pE i) then Fin 0 else pE i)\<rparr>"

text \<open>Lines 1076 to 1079: the schedule sets the command unless the latch is set.\<close>

definition scheduleCommand :: "Inputs \<Rightarrow> sys \<Rightarrow> sys" where
  "scheduleCommand i s =
     (if \<not> manualPriority (state s)
      then s\<lparr>state := (state s)\<lparr>relayCommand := isWithinOnWindow (scheduleCfg s) (rtc i)\<rparr>\<rparr>
      else s)"

text \<open>Lines 1085 to 1106: what the sampling step does with the evaluated fault.\<close>

definition protect :: "Lib \<Rightarrow> FaultCode \<Rightarrow> ms \<Rightarrow> string \<Rightarrow> sys \<Rightarrow> sys" where
  "protect L fault nowMs t s =
     (if fault \<noteq> FAULT_NONE then
        (let s1 = s\<lparr>state := (state s)\<lparr>lastFault := faultToString fault\<rparr>\<rparr> in
           if relayPhysical (state s1) then
             (let s2 = setRelay False s1;
                  s3 = s2\<lparr>state := (state s2)\<lparr>manualPriority := False\<rparr>\<rparr>;
                  s4 = s3\<lparr>lastOffMs := nowMs\<rparr>;
                  s5 = s4\<lparr>faultLockUntil := nowMs + FAULT_LOCK_MS\<rparr>
              in s5\<lparr>fs := appendLog t ''fault''
                     (lastFault (state s5) @ '' V='' @ fmt_float L (sV s5) @ '' I=''
                      @ fmt_float L (sI s5) @ '' PF='' @ fmt_float L (sPF s5)) (fs s5)\<rparr>)
           else s1)
      else
        (let s1 = s\<lparr>state := (state s)\<lparr>lastFault :=
                    (if nowMs < faultLockUntil s then ''LOCKOUT'' else ''OK'')\<rparr>\<rparr> in
           if \<not> manualPriority (state s1) then
             (if relayCommand (state s1) then
                (if nowMs - lastOffMs s1 \<ge> MIN_OFF_MS \<and> nowMs \<ge> faultLockUntil s1
                 then setRelay True s1 else s1)
              else
                (if relayPhysical (state s1)
                 then (setRelay False s1)\<lparr>lastOffMs := nowMs\<rparr>
                 else s1))
           else s1))"

text \<open>Lines 1109 and 1110: the health note.\<close>

definition healthNote :: "Lib \<Rightarrow> string \<Rightarrow> sys \<Rightarrow> sys" where
  "healthNote L t s =
     (let eff = estimateEfficiency s (sP s) in
        if f_gt eff (Fin 0) \<and> f_lt eff (Fin (4 / 10)) \<and> relayPhysical (state s)
        then s\<lparr>fs := appendLog t ''health''
                 (''Low eff '' @ fmt_float L eff @ '' P='' @ fmt_float L (sP s)) (fs s)\<rparr>
        else s)"

text \<open>Lines 1113 to 1121: runtime accounting.\<close>

definition runtimeAccounting :: "Lib \<Rightarrow> ms \<Rightarrow> string \<Rightarrow> sys \<Rightarrow> sys" where
  "runtimeAccounting L nowMs t s =
     (if relayPhysical (state s) \<and> \<not> wasRunning s
      then (let s1 = s\<lparr>wasRunning := True, runStartMs := nowMs\<rparr>
            in s1\<lparr>fs := appendLog t ''run'' ''start'' (fs s1)\<rparr>)
      else if \<not> relayPhysical (state s) \<and> wasRunning s
      then (let s1 = s\<lparr>wasRunning := False\<rparr>
            in s1\<lparr>fs := appendLog t ''run''
                     (''stop '' @ fmt_ulong L ((nowMs - runStartMs s1) div 1000) @ ''s'') (fs s1)\<rparr>)
      else s)"

text \<open>Lines 1063 to 1121: the body of the sampling step.\<close>

definition sampleStep :: "Lib \<Rightarrow> Inputs \<Rightarrow> sys \<Rightarrow> sys" where
  "sampleStep L i s =
     (let s1 = s\<lparr>lastSampleMs := ms_now i\<rparr>;
          s2 = readMeter i s1;
          s3 = scheduleCommand i s2;
          fault = evaluateFaults (thresholds s3) (sV s3) (sI s3) (sPF s3);
          s4 = protect L fault (ms_now i) (ts i) s3;
          s5 = healthNote L (ts i) s4
      in runtimeAccounting L (ms_now i) (ts i) s5)"

text \<open>
  Lines 1132 to 1169: the network cycle. \<open>ensureDeviceDoc\<close>, \<open>firestoreUpdateStatus\<close> and
  \<open>firestoreUploadTelemetry\<close> write to the remote service only and are left out.
\<close>

definition netCycle :: "Lib \<Rightarrow> Inputs \<Rightarrow> sys \<Rightarrow> sys" where
  "netCycle L i s =
     (let s1 = s\<lparr>lastNetMs := ms_now i\<rparr>;
          s2 = (if \<not> wifi_up i then connectWiFi (wifi_connects i) (ts i) s1 else s1);
          up = (if wifi_up i then True else wifi_connects i)
      in if up then
           (if signIn_loop i
            then syncPending L (post_code i)
                   (firestoreFetchAndApply L (signIn_fetch i) (get_ok i) (doc i) s2)
            else s2)
         else s2\<lparr>fs := rotateLogsIfTooBig maxBytes_default (fs s2)\<rparr>)"

text \<open>One pass of \<open>loop()\<close>.\<close>

definition loop :: "Lib \<Rightarrow> Inputs \<Rightarrow> sys \<Rightarrow> sys" where
  "loop L i s =
     (let s1 = buttons i s;
          nowMs = ms_now i;
          s2 = (if nowMs - lastSampleMs s1 \<ge> 500 then sampleStep L i s1 else s1);
          s3 = (if nowMs - lastLcdMs s2 \<ge> 1000 then s2\<lparr>lastLcdMs := nowMs\<rparr> else s2);
          s4 = (if nowMs - lastNetMs s3 \<ge> 5000 then netCycle L i s3 else s3)
      in if nowMs - lastRotateMs s4 \<ge> 30000
         then s4\<lparr>lastRotateMs := nowMs, fs := rotateLogsIfTooBig maxBytes_default (fs s4)\<rparr>
         else s4)"

fun run :: "Lib \<Rightarrow> Inputs list \<Rightarrow> sys \<Rightarrow> sys" where
  "run L [] s = s"
| "run L (i # is) s = run L is (loop L i s)"

subsection \<open>A concrete environment for examples\<close>

text \<open>
  Stand-ins for the library functions, used where a property is evaluated on concrete
  inputs: conversions that read a JSON value of the matching kind, a decimal \<open>atoi\<close>
  for unsigned digit strings, a parser for lines of the shape \<open>appendLogLine\<close> writes,
  and decimal printing.
\<close>

fun as_float0 :: "json \<Rightarrow> cfloat" where
  "as_float0 (JNum x) = x"
| "as_float0 (JBool b) = Fin (if b then 1 else 0)"
| "as_float0 _ = Fin 0"

fun as_bool0 :: "json \<Rightarrow> bool" where
  "as_bool0 (JBool b) = b"
| "as_bool0 _ = False"

definition digit_of :: "char \<Rightarrow> nat option" where
  "digit_of c = map_of [(CHR ''0'', 0), (CHR ''1'', 1), (CHR ''2'', 2), (CHR ''3'', 3),
     (CHR ''4'', 4), (CHR ''5'', 5), (CHR ''6'', 6), (CHR ''7'', 7), (CHR ''8'', 8),
     (CHR ''9'', 9)] c"

fun digits_val :: "nat \<Rightarrow> string \<Rightarrow> nat" where
  "digits_val acc [] = acc"
| "digits_val acc (c # cs) =
     (case digit_of c of None \<Rightarrow> acc | Some d \<Rightarrow> digits_val (10 * acc + d) cs)"

fun atoi0 :: "json \<Rightarrow> int" where
  "atoi0 (JStr t) = int (digits_val 0 t)"
| "atoi0 _ = 0"

fun splitq :: "string \<Rightarrow> string list" where
  "splitq [] = [[]]"
| "splitq (c # cs) =
     (if c = dq then [] # splitq cs
      else (case splitq cs of [] \<Rightarrow> [[c]] | w # ws \<Rightarrow> (c # w) # ws))"

definition parse_log_line :: "string \<Rightarrow> json option" where
  "parse_log_line line =
     (let ws = splitq line in
        if length ws = 13 \<and> ws ! 0 = ''{'' \<and> ws ! 1 = ''ts'' \<and> ws ! 2 = '':''
           \<and> ws ! 4 = '','' \<and> ws ! 5 = ''type'' \<and> ws ! 6 = '':'' \<and> ws ! 8 = '',''
           \<and> ws ! 9 = ''msg'' \<and> ws ! 10 = '':'' \<and> ws ! 12 = ''}''
        then Some (JObj [(''ts'', JStr (ws ! 3)), (''type'', JStr (ws ! 7)),
                         (''msg'', JStr (ws ! 11))])
        else None)"

definition dec10 :: "nat \<Rightarrow> string" where
  "dec10 n =
     (let ds = dropWhile (\<lambda>d. d = 0) (map (\<lambda>k. n div 10 ^ k mod 10) [9, 8, 7, 6, 5, 4, 3, 2, 1])
      in map (\<lambda>d. ''0123456789'' ! d) (ds @ [n mod 10]))"

definition fmt_ulong0 :: "ms \<Rightarrow> string" where
  "fmt_ulong0 w = dec10 (unat w)"

definition fmt_float0 :: "cfloat \<Rightarrow> string" where
  "fmt_float0 x =
     (case x of
        NaN \<Rightarrow> ''nan''
      | Fin r \<Rightarrow>
          (let c = nat \<lfloor>\<bar>r\<bar> * 100 + 1 / 2\<rfloor>
           in (if r < 0 then ''-'' else []) @ dec10 (c div 100) @ ''.''
              @ [''0123456789'' ! (c mod 100 div 10), ''0123456789'' ! (c mod 10)]))"

definition lib0 :: Lib where
  "lib0 = \<lparr> as_float = as_float0, as_bool = as_bool0, atoi_cstr = atoi0,
            deserializeJson = parse_log_line, fmt_float = fmt_float0, fmt_ulong = fmt_ulong0 \<rparr>"

text \<open>
  The sketch's defaults with the relay off, a mounted and empty file system, and every
  timer at 0.
\<close>

definition sys0 :: sys where
  "sys0 = \<lparr> thresholds = default_thresholds, scheduleCfg = default_schedule,
     state = \<lparr> relayCommand = False, relayPhysical = False, manualPriority = False,
               lastFault = ''OK'', hp = Fin 1 \<rparr>,
     relayPin = True, lastOffMs = 0, faultLockUntil = 0, lastSampleMs = 0, lastLcdMs = 0,
     lastNetMs = 0, lastRotateMs = 0, wasRunning = False, runStartMs = 0,
     sV = Fin 0, sI = Fin 0, sP = Fin 0, sPF = Fin 1, sE = Fin 0,
     fs = \<lparr> mounted = True, files = (\<lambda>p. None) \<rparr>, prefs = None, synced = [] \<rparr>"

text \<open>
  A pass at time \<open>t\<close> with no button edge, a healthy meter reading (230 V, 2 A, 400 W,
  power factor 0.9), a June noon on the clock, and no network.
\<close>

definition quiet :: "ms \<Rightarrow> Inputs" where
  "quiet t = \<lparr> startFell = False, stopFell = False, ms_start_a = t, ms_start_b = t,
     ms_stop = t, ms_now = t, pV = Fin 230, pI = Fin 2, pP = Fin 400, pPF = Fin (9 / 10),
     pE = Fin 1, rtc = \<lparr> month = 6, hour = 12, minute = 0 \<rparr>, ts = ''2025-06-01T06:30:00Z'',
     wifi_up = False, wifi_connects = False, signIn_loop = False, signIn_fetch = False,
     get_ok = False, doc = None, post_code = (\<lambda>k. 0) \<rparr>"

text \<open>The device document, reduced to its \<open>control\<close> map with the three flags.\<close>

definition control_doc :: "bool \<Rightarrow> bool \<Rightarrow> bool \<Rightarrow> json" where
  "control_doc forceOn forceOff clearManual =
     JObj [(''fields'', JObj [(''control'', JObj [(''mapValue'', JObj [(''fields'', JObj
       [(''forceOn'', JObj [(''booleanValue'', JBool forceOn)]),
        (''forceOff'', JObj [(''booleanValue'', JBool forceOff)]),
        (''clearManual'', JObj [(''booleanValue'', JBool clearManual)])])])])])]"

text \<open>A pass at time \<open>t\<close> in which the network is up and the fetched document is \<open>d\<close>.\<close>

definition online :: "ms \<Rightarrow> json \<Rightarrow> Inputs" where
  "online t d = (quiet t)\<lparr> wifi_up := True, signIn_loop := True, signIn_fetch := True,
     get_ok := True, doc := Some d, post_code := (\<lambda>k. 200) \<rparr>"

text \<open>The same defaults with the pump running: relay on since time 0.\<close>

definition running0 :: sys where
  "running0 = (setRelay True sys0)\<lparr>wasRunning := True\<rparr>"

text \<open>A pass at time \<open>t\<close> in which the meter gives no reading: every value is NaN.\<close>

definition meterless :: "ms \<Rightarrow> Inputs" where
  "meterless t = (quiet t)\<lparr>pV := NaN, pI := NaN, pP := NaN, pPF := NaN, pE := NaN\<rparr>"

subsection \<open>Presence of a configuration field in a document\<close>

text \<open>
  What a Firestore document holds for a field of the \<open>config\<close> map, read along the
  path \<open>fields / config / mapValue / fields / group / mapValue / fields / name / kind\<close>
  without any of the null checks of the \<open>getField\<close> helpers. The field is absent from
  the document when this is \<open>JNull\<close>.
\<close>

definition field_at :: "json \<Rightarrow> string list \<Rightarrow> json" where
  "field_at v ks = foldl jget v ks"

definition cfg_field :: "json \<Rightarrow> string \<Rightarrow> string \<Rightarrow> string \<Rightarrow> json" where
  "cfg_field rootv grp name kind =
     field_at rootv [''fields'', ''config'', ''mapValue'', ''fields'', grp, ''mapValue'',
                     ''fields'', name, kind]"

text \<open>A configuration fragment that carries \<open>maxCurrent_A\<close> and nothing else.\<close>

definition maxCurrent_doc :: "cfloat \<Rightarrow> json" where
  "maxCurrent_doc v =
     JObj [(''fields'', JObj [(''config'', JObj [(''mapValue'', JObj [(''fields'', JObj
       [(''thresholds'', JObj [(''mapValue'', JObj [(''fields'', JObj
          [(''maxCurrent_A'', JObj [(''doubleValue'', JNum v)])])])])])])])])]"

subsection \<open>The entries of a log batch\<close>

text \<open>
  A batch read the way the specification speaks of it, as a list of entries: the file
  cut at its newlines, keeping the lines of five bytes or more that parse as JSON.
\<close>

fun lines_of :: "string \<Rightarrow> string list" where
  "lines_of [] = []"
| "lines_of (c # cs) =
     (if c = nl then [] # lines_of cs
      else (case lines_of cs of [] \<Rightarrow> [[c]] | l # ls \<Rightarrow> (c # l) # ls))"

definition log_entries :: "Lib \<Rightarrow> string \<Rightarrow> json list" where
  "log_entries L content =
     List.map_filter (\<lambda>line. if length line < 5 then None else deserializeJson L line)
       (lines_of content)"

text \<open>
  A device whose pending slot holds a batch of one event, and a network cycle at time
  \<open>t\<close> in which the remote service answers every POST with status 500.
\<close>

definition one_pending :: sys where
  "one_pending = sys0\<lparr>fs := \<lparr> mounted = True,
     files = (\<lambda>p. None)(LOG_PENDING := Some (log_line ''2025-06-01T06:30:00Z'' ''run'' ''start'')) \<rparr>\<rparr>"

definition rejecting :: "ms \<Rightarrow> Inputs" where
  "rejecting t = (online t (JObj []))\<lparr>post_code := (\<lambda>k. 500)\<rparr>"

text \<open>
  A pump started by hand and running for 100 s: relay on, latch set, the last sample
  taken at 99.5 s and the last network cycle at 97 s.
\<close>

definition pump_on :: sys where
  "pump_on = (setRelay True sys0)\<lparr>
     state := (state (setRelay True sys0))\<lparr>manualPriority := True\<rparr>,
     wasRunning := True, lastSampleMs := 99500, lastLcdMs := 99500, lastNetMs := 97000,
     lastRotateMs := 90000\<rparr>"

section \<open>Properties\<close>

subsection \<open>Fault evaluator\<close>

lemma evaluateFaults_cases:
  "evaluateFaults th V I PF = FAULT_UNDERVOLT \<longleftrightarrow> f_lt V (minVoltage th)"
  "evaluateFaults th V I PF = FAULT_OVERVOLT \<longleftrightarrow>
     \<not> f_lt V (minVoltage th) \<and> f_gt V (maxVoltage th)"
  "evaluateFaults th V I PF = FAULT_OVERLOAD \<longleftrightarrow>
     \<not> f_lt V (minVoltage th) \<and> \<not> f_gt V (maxVoltage th) \<and> f_gt I (maxCurrent_A th)"
  "evaluateFaults th V I PF = FAULT_DRYRUN \<longleftrightarrow>
     \<not> f_lt V (minVoltage th) \<and> \<not> f_gt V (maxVoltage th) \<and> \<not> f_gt I (maxCurrent_A th)
     \<and> f_le I (minCurrent_A th) \<and> f_le PF (minPF th)"
  "evaluateFaults th V I PF = FAULT_NONE \<longleftrightarrow>
     \<not> f_lt V (minVoltage th) \<and> \<not> f_gt V (maxVoltage th) \<and> \<not> f_gt I (maxCurrent_A th)
     \<and> \<not> (f_le I (minCurrent_A th) \<and> f_le PF (minPF th))"
  by (simp_all add: evaluateFaults_def)

text \<open>
  C5. \<open>evaluateFaults\<close> returns the first match in the order undervoltage, overvoltage,
  overload, dry-run. A voltage below \<open>minVoltage\<close> gives Undervoltage whatever the current
  and the power factor are; each later code is returned exactly when its own condition
  holds and every earlier one fails; DryRun needs both \<open>I \<le> minCurrent_A\<close> and
  \<open>PF \<le> minPF\<close>, so one of the two alone never gives DryRun; with no condition met
  the result is None.
\<close>

theorem evaluateFaults_first_match:
  "(f_lt V (minVoltage th) \<longrightarrow> evaluateFaults th V I PF = FAULT_UNDERVOLT)
   \<and> (evaluateFaults th V I PF = FAULT_UNDERVOLT \<longrightarrow> f_lt V (minVoltage th))
   \<and> (evaluateFaults th V I PF = FAULT_OVERVOLT \<longleftrightarrow>
        \<not> f_lt V (minVoltage th) \<and> f_gt V (maxVoltage th))
   \<and> (evaluateFaults th V I PF = FAULT_OVERLOAD \<longleftrightarrow>
        \<not> f_lt V (minVoltage th) \<and> \<not> f_gt V (maxVoltage th) \<and> f_gt I (maxCurrent_A th))
   \<and> (evaluateFaults th V I PF = FAULT_DRYRUN \<longleftrightarrow>
        \<not> f_lt V (minVoltage th) \<and> \<not> f_gt V (maxVoltage th) \<and> \<not> f_gt I (maxCurrent_A th)
        \<and> f_le I (minCurrent_A th) \<and> f_le PF (minPF th))
   \<and> (\<not> f_le I (minCurrent_A th) \<longrightarrow> evaluateFaults th V I PF \<noteq> FAULT_DRYRUN)
   \<and> (\<not> f_le PF (minPF th) \<longrightarrow> evaluateFaults th V I PF \<noteq> FAULT_DRYRUN)
   \<and> (\<not> f_lt V (minVoltage th) \<and> \<not> f_gt V (maxVoltage th) \<and> \<not> f_gt I (maxCurrent_A th)
        \<and> \<not> (f_le I (minCurrent_A th) \<and> f_le PF (minPF th))
        \<longrightarrow> evaluateFaults th V I PF = FAULT_NONE)"
  by (simp add: evaluateFaults_cases)

text \<open>
  Witness for C5 with the firmware's default thresholds: 150 V is an undervoltage at any
  load; 230 V with 0.2 A at power factor 0.4 is a dry run; the same current at power
  factor 0.9, or the same power factor at 2 A, is no fault.
\<close>

theorem evaluateFaults_first_match_witness:
  "evaluateFaults default_thresholds (Fin 150) (Fin 9) (Fin (1 / 10)) = FAULT_UNDERVOLT
   \<and> evaluateFaults default_thresholds (Fin 230) (Fin (2 / 10)) (Fin (4 / 10)) = FAULT_DRYRUN
   \<and> evaluateFaults default_thresholds (Fin 230) (Fin (2 / 10)) (Fin (9 / 10)) \<noteq> FAULT_DRYRUN
   \<and> evaluateFaults default_thresholds (Fin 230) (Fin 2) (Fin (4 / 10)) = FAULT_NONE"
  using evaluateFaults_first_match [of "Fin 150" default_thresholds "Fin 9" "Fin (1 / 10)"]
    evaluateFaults_first_match [of "Fin 230" default_thresholds "Fin (2 / 10)" "Fin (4 / 10)"]
    evaluateFaults_first_match [of "Fin 230" default_thresholds "Fin (2 / 10)" "Fin (9 / 10)"]
    evaluateFaults_first_match [of "Fin 230" default_thresholds "Fin 2" "Fin (4 / 10)"]
  by (simp add: default_thresholds_def f_lt_def f_le_def f_gt_def)

subsection \<open>Scheduler window\<close>






subsection \<open>Log rotation\<close>

text \<open>
  C8. The pending batch is the one file \<open>LOG_PENDING\<close>. When the active log has reached
  the size bound, rotation moves its bytes into that slot and leaves no active log, so
  the next \<open>appendLog\<close> starts a fresh one; whatever batch the slot held before is
  replaced, not extended. No other file changes. Below the bound, or with no active
  log, rotation does nothing.
\<close>

theorem rotate_replaces_pending:
  "(mounted f \<and> files f LOG_PATH = Some c \<and> maxBytes \<le> length c \<longrightarrow>
      files (rotateLogsIfTooBig maxBytes f) LOG_PENDING = Some c
      \<and> files (rotateLogsIfTooBig maxBytes f) LOG_PATH = None
      \<and> (\<forall>p. p \<noteq> LOG_PATH \<and> p \<noteq> LOG_PENDING \<longrightarrow>
            files (rotateLogsIfTooBig maxBytes f) p = files f p)
      \<and> files (appendLog t ty m (rotateLogsIfTooBig maxBytes f)) LOG_PATH = Some (log_line t ty m)
      \<and> files (appendLog t ty m (rotateLogsIfTooBig maxBytes f)) LOG_PENDING = Some c)
   \<and> (files f LOG_PATH = Some c \<and> length c < maxBytes \<longrightarrow> rotateLogsIfTooBig maxBytes f = f)
   \<and> (fs_open_read f LOG_PATH = None \<longrightarrow> rotateLogsIfTooBig maxBytes f = f)"
proof -
  have ne: "LOG_PATH \<noteq> LOG_PENDING"
    by (simp add: LOG_PATH_def LOG_PENDING_def)
  have big: "files (rotateLogsIfTooBig maxBytes f) LOG_PENDING = Some c
      \<and> files (rotateLogsIfTooBig maxBytes f) LOG_PATH = None
      \<and> (\<forall>p. p \<noteq> LOG_PATH \<and> p \<noteq> LOG_PENDING \<longrightarrow>
            files (rotateLogsIfTooBig maxBytes f) p = files f p)
      \<and> files (appendLog t ty m (rotateLogsIfTooBig maxBytes f)) LOG_PATH = Some (log_line t ty m)
      \<and> files (appendLog t ty m (rotateLogsIfTooBig maxBytes f)) LOG_PENDING = Some c"
    if "mounted f" and "files f LOG_PATH = Some c" and "maxBytes \<le> length c"
    using that ne
    by (simp add: rotateLogsIfTooBig_def fs_open_read_def fs_rename_def fs_remove_def
        appendLog_def)
  have small: "rotateLogsIfTooBig maxBytes f = f"
    if "files f LOG_PATH = Some c" and "length c < maxBytes"
    using that by (simp add: rotateLogsIfTooBig_def fs_open_read_def)
  have none: "rotateLogsIfTooBig maxBytes f = f" if "fs_open_read f LOG_PATH = None"
    using that by (simp add: rotateLogsIfTooBig_def)
  from big small none show ?thesis
    by blast
qed

text \<open>
  Witness for C8: an active log of ten bytes at a bound of ten, with an undrained batch
  \<open>old\<close> in the pending slot. After the rotation the slot holds the ten bytes only.
\<close>

theorem rotate_replaces_pending_witness:
  "files (rotateLogsIfTooBig 10
      \<lparr> mounted = True,
        files = (\<lambda>p. None)(LOG_PATH := Some ''0123456789'', LOG_PENDING := Some ''old'') \<rparr>)
     LOG_PENDING = Some ''0123456789''
   \<and> files (rotateLogsIfTooBig 10
      \<lparr> mounted = True,
        files = (\<lambda>p. None)(LOG_PATH := Some ''0123456789'', LOG_PENDING := Some ''old'') \<rparr>)
     LOG_PATH = None
   \<and> rotateLogsIfTooBig 11
      \<lparr> mounted = True,
        files = (\<lambda>p. None)(LOG_PATH := Some ''0123456789'', LOG_PENDING := Some ''old'') \<rparr>
     = \<lparr> mounted = True,
        files = (\<lambda>p. None)(LOG_PATH := Some ''0123456789'', LOG_PENDING := Some ''old'') \<rparr>"
  using rotate_replaces_pending [of
      "\<lparr> mounted = True,
         files = (\<lambda>p. None)(LOG_PATH := Some ''0123456789'', LOG_PENDING := Some ''old'') \<rparr>"
      "''0123456789''" 10]
    rotate_replaces_pending [of
      "\<lparr> mounted = True,
         files = (\<lambda>p. None)(LOG_PATH := Some ''0123456789'', LOG_PENDING := Some ''old'') \<rparr>"
      "''0123456789''" 11]
  by (simp add: LOG_PATH_def LOG_PENDING_def)


subsection \<open>Frame lemmas of the sampling step\<close>

lemma setRelay_sel:
  "relayPhysical (state (setRelay b s)) = b"
  "relayCommand (state (setRelay b s)) = b"
  "manualPriority (state (setRelay b s)) = manualPriority (state s)"
  "lastFault (state (setRelay b s)) = lastFault (state s)"
  "hp (state (setRelay b s)) = hp (state s)"
  "lastOffMs (setRelay b s) = lastOffMs s"
  "faultLockUntil (setRelay b s) = faultLockUntil s"
  "fs (setRelay b s) = fs s"
  "wasRunning (setRelay b s) = wasRunning s"
  "runStartMs (setRelay b s) = runStartMs s"
  "thresholds (setRelay b s) = thresholds s"
  "scheduleCfg (setRelay b s) = scheduleCfg s"
  "sV (setRelay b s) = sV s" "sI (setRelay b s) = sI s" "sP (setRelay b s) = sP s"
  "sPF (setRelay b s) = sPF s"
  by (simp_all add: setRelay_def)

lemma readMeter_sel:
  "state (readMeter i s) = state s"
  "thresholds (readMeter i s) = thresholds s"
  "scheduleCfg (readMeter i s) = scheduleCfg s"
  "lastOffMs (readMeter i s) = lastOffMs s"
  "faultLockUntil (readMeter i s) = faultLockUntil s"
  "fs (readMeter i s) = fs s"
  "wasRunning (readMeter i s) = wasRunning s"
  "runStartMs (readMeter i s) = runStartMs s"
  by (simp_all add: readMeter_def)

lemma scheduleCommand_sel:
  "relayPhysical (state (scheduleCommand i s)) = relayPhysical (state s)"
  "manualPriority (state (scheduleCommand i s)) = manualPriority (state s)"
  "lastFault (state (scheduleCommand i s)) = lastFault (state s)"
  "hp (state (scheduleCommand i s)) = hp (state s)"
  "thresholds (scheduleCommand i s) = thresholds s"
  "scheduleCfg (scheduleCommand i s) = scheduleCfg s"
  "lastOffMs (scheduleCommand i s) = lastOffMs s"
  "faultLockUntil (scheduleCommand i s) = faultLockUntil s"
  "fs (scheduleCommand i s) = fs s"
  "wasRunning (scheduleCommand i s) = wasRunning s"
  "runStartMs (scheduleCommand i s) = runStartMs s"
  "sV (scheduleCommand i s) = sV s" "sI (scheduleCommand i s) = sI s"
  "sP (scheduleCommand i s) = sP s" "sPF (scheduleCommand i s) = sPF s"
  by (simp_all add: scheduleCommand_def)

lemma healthNote_sel:
  "state (healthNote L t s) = state s"
  "thresholds (healthNote L t s) = thresholds s"
  "scheduleCfg (healthNote L t s) = scheduleCfg s"
  "lastOffMs (healthNote L t s) = lastOffMs s"
  "faultLockUntil (healthNote L t s) = faultLockUntil s"
  "wasRunning (healthNote L t s) = wasRunning s"
  "runStartMs (healthNote L t s) = runStartMs s"
  "sV (healthNote L t s) = sV s" "sI (healthNote L t s) = sI s"
  "sP (healthNote L t s) = sP s" "sPF (healthNote L t s) = sPF s"
  by (simp_all add: healthNote_def Let_def)

lemma healthNote_off: "\<not> relayPhysical (state s) \<Longrightarrow> healthNote L t s = s"
  by (simp add: healthNote_def Let_def)

lemma runtimeAccounting_sel:
  "state (runtimeAccounting L n t s) = state s"
  "thresholds (runtimeAccounting L n t s) = thresholds s"
  "scheduleCfg (runtimeAccounting L n t s) = scheduleCfg s"
  "lastOffMs (runtimeAccounting L n t s) = lastOffMs s"
  "faultLockUntil (runtimeAccounting L n t s) = faultLockUntil s"
  "sV (runtimeAccounting L n t s) = sV s" "sI (runtimeAccounting L n t s) = sI s"
  "sP (runtimeAccounting L n t s) = sP s" "sPF (runtimeAccounting L n t s) = sPF s"
  by (simp_all add: runtimeAccounting_def Let_def)

lemma runtimeAccounting_off:
  "\<not> relayPhysical (state s) \<Longrightarrow>
   fs (runtimeAccounting L n t s) =
     (if wasRunning s
      then appendLog t ''run'' (''stop '' @ fmt_ulong L ((n - runStartMs s) div 1000) @ ''s'') (fs s)
      else fs s)"
  by (simp add: runtimeAccounting_def Let_def)

lemma protect_fault_off:
  "fault \<noteq> FAULT_NONE \<Longrightarrow> \<not> relayPhysical (state s) \<Longrightarrow>
   protect L fault n t s = s\<lparr>state := (state s)\<lparr>lastFault := faultToString fault\<rparr>\<rparr>"
  by (simp add: protect_def Let_def)

text \<open>The sampling step through its selectors: what each later stage keeps.\<close>

lemma sampleStep_state:
  "state (sampleStep L i s) =
     state (protect L
       (evaluateFaults (thresholds s) (sV (readMeter i s)) (sI (readMeter i s)) (sPF (readMeter i s)))
       (ms_now i) (ts i) (scheduleCommand i (readMeter i (s\<lparr>lastSampleMs := ms_now i\<rparr>))))"
  by (simp add: sampleStep_def Let_def runtimeAccounting_sel healthNote_sel scheduleCommand_sel
      readMeter_sel) (simp add: readMeter_def)


lemma sampleStep_timers:
  "lastOffMs (sampleStep L i s) =
     lastOffMs (protect L
       (evaluateFaults (thresholds s) (sV (readMeter i s)) (sI (readMeter i s)) (sPF (readMeter i s)))
       (ms_now i) (ts i) (scheduleCommand i (readMeter i (s\<lparr>lastSampleMs := ms_now i\<rparr>))))"
  "faultLockUntil (sampleStep L i s) =
     faultLockUntil (protect L
       (evaluateFaults (thresholds s) (sV (readMeter i s)) (sI (readMeter i s)) (sPF (readMeter i s)))
       (ms_now i) (ts i) (scheduleCommand i (readMeter i (s\<lparr>lastSampleMs := ms_now i\<rparr>))))"
  by (simp_all add: sampleStep_def Let_def runtimeAccounting_sel healthNote_sel scheduleCommand_sel
      readMeter_sel) (simp_all add: readMeter_def)

lemma protect_sel:
  "sV (protect L fault n t s) = sV s" "sI (protect L fault n t s) = sI s"
  "sP (protect L fault n t s) = sP s" "sPF (protect L fault n t s) = sPF s"
  "thresholds (protect L fault n t s) = thresholds s"
  "scheduleCfg (protect L fault n t s) = scheduleCfg s"
  "wasRunning (protect L fault n t s) = wasRunning s"
  "runStartMs (protect L fault n t s) = runStartMs s"
  "hp (state (protect L fault n t s)) = hp (state s)"
  by (simp_all add: protect_def Let_def setRelay_def)

lemma sampleStep_meter:
  "sV (sampleStep L i s) = (if isnan (pV i) then Fin 0 else pV i)"
  "sI (sampleStep L i s) = (if isnan (pI i) then Fin 0 else pI i)"
  "sP (sampleStep L i s) = (if isnan (pP i) then Fin 0 else pP i)"
  "sPF (sampleStep L i s) = (if isnan (pPF i) then Fin 1 else pPF i)"
  by (simp_all add: sampleStep_def Let_def runtimeAccounting_sel healthNote_sel protect_sel
      scheduleCommand_sel) (simp_all add: readMeter_def)

lemma protect_trip:
  assumes "fault \<noteq> FAULT_NONE" and "relayPhysical (state s)"
  shows "state (protect L fault n t s) =
           (state s)\<lparr>lastFault := faultToString fault, relayCommand := False,
                     relayPhysical := False, manualPriority := False\<rparr>"
    and "lastOffMs (protect L fault n t s) = n"
    and "faultLockUntil (protect L fault n t s) = n + FAULT_LOCK_MS"
  using assms by (simp_all add: protect_def Let_def setRelay_def)

lemma protect_state_manual:
  assumes "manualPriority (state s)"
  shows "state (protect L fault n t s) =
     (if fault \<noteq> FAULT_NONE
      then (if relayPhysical (state s)
            then (state s)\<lparr>lastFault := faultToString fault, relayCommand := False,
                           relayPhysical := False, manualPriority := False\<rparr>
            else (state s)\<lparr>lastFault := faultToString fault\<rparr>)
      else (state s)\<lparr>lastFault := (if n < faultLockUntil s then ''LOCKOUT'' else ''OK'')\<rparr>)"
  using assms by (simp add: protect_def Let_def setRelay_def)


subsection \<open>A fault seen while the relay is off\<close>

text \<open>
  C10. When the sampling step evaluates a fault other than None while the relay is
  physically off, the fault block (lines 1085 to 1093) writes \<open>state.lastFault\<close> and
  nothing else. Over the whole sampling step \<open>faultLockUntil\<close> and \<open>lastOffMs\<close> keep
  their values, the manual-priority latch keeps its value, the relay stays off, and the
  log receives no fault event: it is unchanged, or extended by the one \<open>run stop\<close>
  event of the runtime accounting when \<open>wasRunning\<close> was still set.
\<close>

theorem fault_while_off_frame:
  "(fault \<noteq> FAULT_NONE \<and> \<not> relayPhysical (state s) \<longrightarrow>
      protect L fault n t s = s\<lparr>state := (state s)\<lparr>lastFault := faultToString fault\<rparr>\<rparr>)
   \<and> (evaluateFaults (thresholds s) (sV (readMeter i s)) (sI (readMeter i s)) (sPF (readMeter i s))
         \<noteq> FAULT_NONE \<and> \<not> relayPhysical (state s) \<longrightarrow>
      lastFault (state (sampleStep L i s)) =
        faultToString (evaluateFaults (thresholds s) (sV (readMeter i s)) (sI (readMeter i s))
          (sPF (readMeter i s)))
      \<and> faultLockUntil (sampleStep L i s) = faultLockUntil s
      \<and> lastOffMs (sampleStep L i s) = lastOffMs s
      \<and> manualPriority (state (sampleStep L i s)) = manualPriority (state s)
      \<and> \<not> relayPhysical (state (sampleStep L i s))
      \<and> fs (sampleStep L i s) =
          (if wasRunning s
           then appendLog (ts i) ''run''
                  (''stop '' @ fmt_ulong L ((ms_now i - runStartMs s) div 1000) @ ''s'') (fs s)
           else fs s))"
proof -
  let ?fault = "evaluateFaults (thresholds s) (sV (readMeter i s)) (sI (readMeter i s))
                  (sPF (readMeter i s))"
  let ?s3 = "scheduleCommand i (readMeter i (s\<lparr>lastSampleMs := ms_now i\<rparr>))"
  have block: "protect L fault n t s = s\<lparr>state := (state s)\<lparr>lastFault := faultToString fault\<rparr>\<rparr>"
    if "fault \<noteq> FAULT_NONE" and "\<not> relayPhysical (state s)"
    using that by (rule protect_fault_off)
  have step: "lastFault (state (sampleStep L i s)) = faultToString ?fault
      \<and> faultLockUntil (sampleStep L i s) = faultLockUntil s
      \<and> lastOffMs (sampleStep L i s) = lastOffMs s
      \<and> manualPriority (state (sampleStep L i s)) = manualPriority (state s)
      \<and> \<not> relayPhysical (state (sampleStep L i s))
      \<and> fs (sampleStep L i s) =
          (if wasRunning s
           then appendLog (ts i) ''run''
                  (''stop '' @ fmt_ulong L ((ms_now i - runStartMs s) div 1000) @ ''s'') (fs s)
           else fs s)"
    if f: "?fault \<noteq> FAULT_NONE" and off: "\<not> relayPhysical (state s)"
  proof -
    have off3: "\<not> relayPhysical (state ?s3)"
      using off by (simp add: scheduleCommand_sel readMeter_sel)
    have p: "protect L ?fault (ms_now i) (ts i) ?s3
             = ?s3\<lparr>state := (state ?s3)\<lparr>lastFault := faultToString ?fault\<rparr>\<rparr>"
      using f off3 by (rule protect_fault_off)
    have st: "state (sampleStep L i s) = (state ?s3)\<lparr>lastFault := faultToString ?fault\<rparr>"
      by (simp add: sampleStep_state p)
    have t1: "faultLockUntil (sampleStep L i s) = faultLockUntil s"
      by (simp add: sampleStep_timers p scheduleCommand_sel readMeter_sel)
    have t2: "lastOffMs (sampleStep L i s) = lastOffMs s"
      by (simp add: sampleStep_timers p scheduleCommand_sel readMeter_sel)
    have off4: "\<not> relayPhysical (state (?s3\<lparr>state := (state ?s3)\<lparr>lastFault := faultToString ?fault\<rparr>\<rparr>))"
      using off3 by simp
    have ss: "sampleStep L i s =
        runtimeAccounting L (ms_now i) (ts i)
          (healthNote L (ts i) (protect L ?fault (ms_now i) (ts i) ?s3))"
      by (simp add: sampleStep_def Let_def scheduleCommand_sel readMeter_sel)
        (simp add: readMeter_def)
    have files: "fs (sampleStep L i s) =
          (if wasRunning s
           then appendLog (ts i) ''run''
                  (''stop '' @ fmt_ulong L ((ms_now i - runStartMs s) div 1000) @ ''s'') (fs s)
           else fs s)"
      unfolding ss p healthNote_off [OF off4] runtimeAccounting_off [OF off4]
      by (simp add: scheduleCommand_sel readMeter_sel)
    show ?thesis
      using st t1 t2 files off by (simp add: scheduleCommand_sel readMeter_sel)
  qed
  from block step show ?thesis
    by blast
qed

text \<open>
  Witness for C10: the relay is off and the meter reads 150 V, an undervoltage under the
  default thresholds. Only \<open>lastFault\<close> changes; the timers and the log stay as they
  were.
\<close>

theorem fault_while_off_frame_witness:
  "lastFault (state (sampleStep lib0 ((quiet 1000)\<lparr>pV := Fin 150\<rparr>) sys0)) = ''UNDER VOLT''
   \<and> faultLockUntil (sampleStep lib0 ((quiet 1000)\<lparr>pV := Fin 150\<rparr>) sys0) = 0
   \<and> lastOffMs (sampleStep lib0 ((quiet 1000)\<lparr>pV := Fin 150\<rparr>) sys0) = 0
   \<and> \<not> manualPriority (state (sampleStep lib0 ((quiet 1000)\<lparr>pV := Fin 150\<rparr>) sys0))
   \<and> \<not> relayPhysical (state (sampleStep lib0 ((quiet 1000)\<lparr>pV := Fin 150\<rparr>) sys0))
   \<and> fs (sampleStep lib0 ((quiet 1000)\<lparr>pV := Fin 150\<rparr>) sys0) = fs sys0"
proof -
  have fault: "evaluateFaults (thresholds sys0)
      (sV (readMeter ((quiet 1000)\<lparr>pV := Fin 150\<rparr>) sys0))
      (sI (readMeter ((quiet 1000)\<lparr>pV := Fin 150\<rparr>) sys0))
      (sPF (readMeter ((quiet 1000)\<lparr>pV := Fin 150\<rparr>) sys0)) = FAULT_UNDERVOLT"
    by (simp add: evaluateFaults_def readMeter_def quiet_def sys0_def default_thresholds_def
        isnan_def f_lt_def)
  have off: "\<not> relayPhysical (state sys0)" "\<not> wasRunning sys0" "\<not> manualPriority (state sys0)"
    "faultLockUntil sys0 = 0" "lastOffMs sys0 = 0"
    by (simp_all add: sys0_def)
  show ?thesis
    using fault_while_off_frame [of FAULT_UNDERVOLT sys0 lib0 1000 "''t''"
        "(quiet 1000)\<lparr>pV := Fin 150\<rparr>"] fault off
    by simp
qed


subsection \<open>The manual START button\<close>

lemma startButton_latch: "startFell i \<Longrightarrow> manualPriority (state (startButton i s))"
  by (simp add: startButton_def Let_def setRelay_def)

lemma stopButton_latch:
  "manualPriority (state s) \<Longrightarrow> manualPriority (state (stopButton i s))"
  by (simp add: stopButton_def Let_def setRelay_def)

lemma startButton_blocked:
  assumes "startFell i"
    and "\<not> (ms_start_a i - lastOffMs s \<ge> MIN_OFF_MS \<and> ms_start_b i \<ge> faultLockUntil s)"
  shows "startButton i s =
     s\<lparr>state := (state s)\<lparr>manualPriority := True\<rparr>,
       fs := appendLog (ts i) ''button'' ''ON blocked (cooldown/lockout)'' (fs s)\<rparr>"
  using assms by (auto simp: startButton_def Let_def)

lemma buttons_timers:
  "lastSampleMs (buttons i s) = lastSampleMs s"
  "lastLcdMs (buttons i s) = lastLcdMs s"
  "lastNetMs (buttons i s) = lastNetMs s"
  "lastRotateMs (buttons i s) = lastRotateMs s"
  by (simp_all add: buttons_def startButton_def stopButton_def Let_def setRelay_def)

lemma scheduleCommand_manual: "manualPriority (state s) \<Longrightarrow> scheduleCommand i s = s"
  by (simp add: scheduleCommand_def)

lemma sampleStep_state_manual:
  assumes "manualPriority (state s)"
  shows "state (sampleStep L i s) =
     (if evaluateFaults (thresholds s) (sV (readMeter i s)) (sI (readMeter i s)) (sPF (readMeter i s))
           \<noteq> FAULT_NONE
      then (if relayPhysical (state s)
            then (state s)\<lparr>lastFault := faultToString
                     (evaluateFaults (thresholds s) (sV (readMeter i s)) (sI (readMeter i s))
                        (sPF (readMeter i s))),
                   relayCommand := False, relayPhysical := False, manualPriority := False\<rparr>
            else (state s)\<lparr>lastFault := faultToString
                     (evaluateFaults (thresholds s) (sV (readMeter i s)) (sI (readMeter i s))
                        (sPF (readMeter i s)))\<rparr>)
      else (state s)\<lparr>lastFault := (if ms_now i < faultLockUntil s then ''LOCKOUT'' else ''OK'')\<rparr>)"
proof -
  let ?s2 = "readMeter i (s\<lparr>lastSampleMs := ms_now i\<rparr>)"
  have m2: "manualPriority (state ?s2)"
    using assms by (simp add: readMeter_sel)
  have "state (sampleStep L i s) =
     state (protect L
       (evaluateFaults (thresholds s) (sV (readMeter i s)) (sI (readMeter i s)) (sPF (readMeter i s)))
       (ms_now i) (ts i) ?s2)"
    by (simp add: sampleStep_state scheduleCommand_manual [OF m2])
  then show ?thesis
    by (simp add: protect_state_manual [OF m2] readMeter_sel)
qed


text \<open>
  C9. A falling edge of the START button sets \<open>manualPriority\<close> whether or not the
  turn-on passes the anti-chatter and lockout gate. When the gate rejects it (and STOP
  did not fall), the button handling changes nothing but the latch and the log, which
  receives the \<open>ON blocked\<close> line. With the latch set, the schedule has no say in the
  sampling step: the relay state after the step is the same for every schedule and
  every clock reading, and without a fault the step leaves relay, command and latch as
  they were. In a pass where neither the sampling step nor the network cycle is due,
  the latch is still set at the end of \<open>loop\<close>.
\<close>

theorem manual_start_latches:
  "(startFell i \<longrightarrow> manualPriority (state (buttons i s)))
   \<and> (startFell i \<and> \<not> stopFell i
        \<and> \<not> (ms_start_a i - lastOffMs s \<ge> MIN_OFF_MS \<and> ms_start_b i \<ge> faultLockUntil s) \<longrightarrow>
        buttons i s =
          s\<lparr>state := (state s)\<lparr>manualPriority := True\<rparr>,
            fs := appendLog (ts i) ''button'' ''ON blocked (cooldown/lockout)'' (fs s)\<rparr>)
   \<and> (manualPriority (state s) \<longrightarrow>
        relayPhysical (state (sampleStep L (i\<lparr>rtc := d\<rparr>) (s\<lparr>scheduleCfg := sc\<rparr>)))
          = relayPhysical (state (sampleStep L i s))
        \<and> relayCommand (state (sampleStep L (i\<lparr>rtc := d\<rparr>) (s\<lparr>scheduleCfg := sc\<rparr>)))
          = relayCommand (state (sampleStep L i s)))
   \<and> (manualPriority (state s)
        \<and> evaluateFaults (thresholds s) (sV (readMeter i s)) (sI (readMeter i s))
             (sPF (readMeter i s)) = FAULT_NONE \<longrightarrow>
        relayPhysical (state (sampleStep L i s)) = relayPhysical (state s)
        \<and> relayCommand (state (sampleStep L i s)) = relayCommand (state s)
        \<and> manualPriority (state (sampleStep L i s)))
   \<and> (startFell i \<and> ms_now i - lastSampleMs s < 500 \<and> ms_now i - lastNetMs s < 5000 \<longrightarrow>
        manualPriority (state (loop L i s)))"
proof -
  have latch: "manualPriority (state (buttons i s))" if "startFell i"
    unfolding buttons_def using that by (intro stopButton_latch startButton_latch)
  have blocked: "buttons i s =
          s\<lparr>state := (state s)\<lparr>manualPriority := True\<rparr>,
            fs := appendLog (ts i) ''button'' ''ON blocked (cooldown/lockout)'' (fs s)\<rparr>"
    if "startFell i" and "\<not> stopFell i"
      and "\<not> (ms_start_a i - lastOffMs s \<ge> MIN_OFF_MS \<and> ms_start_b i \<ge> faultLockUntil s)"
    using that by (simp add: buttons_def stopButton_def startButton_blocked)
  have meter: "readMeter (i\<lparr>rtc := d\<rparr>) (s\<lparr>scheduleCfg := sc\<rparr>) = (readMeter i s)\<lparr>scheduleCfg := sc\<rparr>"
    by (simp add: readMeter_def)
  have indep: "relayPhysical (state (sampleStep L (i\<lparr>rtc := d\<rparr>) (s\<lparr>scheduleCfg := sc\<rparr>)))
          = relayPhysical (state (sampleStep L i s))
        \<and> relayCommand (state (sampleStep L (i\<lparr>rtc := d\<rparr>) (s\<lparr>scheduleCfg := sc\<rparr>)))
          = relayCommand (state (sampleStep L i s))"
    if m: "manualPriority (state s)"
  proof -
    have m': "manualPriority (state (s\<lparr>scheduleCfg := sc\<rparr>))"
      using m by simp
    show ?thesis
      by (simp add: sampleStep_state_manual [OF m] sampleStep_state_manual [OF m'] meter)
  qed
  have keep: "relayPhysical (state (sampleStep L i s)) = relayPhysical (state s)
        \<and> relayCommand (state (sampleStep L i s)) = relayCommand (state s)
        \<and> manualPriority (state (sampleStep L i s))"
    if m: "manualPriority (state s)"
      and "evaluateFaults (thresholds s) (sV (readMeter i s)) (sI (readMeter i s))
             (sPF (readMeter i s)) = FAULT_NONE"
    using that by (simp add: sampleStep_state_manual [OF m])
  have pass: "manualPriority (state (loop L i s))"
    if "startFell i" and "ms_now i - lastSampleMs s < 500" and "ms_now i - lastNetMs s < 5000"
  proof -
    have "state (loop L i s) = state (buttons i s)"
      using that(2,3) by (simp add: loop_def Let_def buttons_timers not_le [symmetric])
    then show ?thesis
      using latch [OF that(1)] by simp
  qed
  from latch blocked indep keep pass show ?thesis
    by blast
qed

text \<open>
  Witness for C9: START falls one second after the relay went off. The gate rejects the
  turn-on, the latch is set and the relay stays off; a sampling step with the latch set
  and a healthy reading leaves the relay off although the schedule is enabled and the
  clock is inside its window.
\<close>

theorem manual_start_latches_witness:
  "manualPriority (state (buttons ((quiet 1000)\<lparr>startFell := True\<rparr>) sys0))
   \<and> \<not> relayPhysical (state (buttons ((quiet 1000)\<lparr>startFell := True\<rparr>) sys0))
   \<and> manualPriority (state (loop lib0 ((quiet 100)\<lparr>startFell := True\<rparr>) sys0))
   \<and> \<not> relayPhysical (state (sampleStep lib0 (quiet 9000)
         (sys0\<lparr>state := (state sys0)\<lparr>manualPriority := True\<rparr>,
               scheduleCfg := default_schedule\<lparr>enabled := True, onHour := 11, offHour := 13\<rparr>\<rparr>)))"
proof -
  let ?i = "(quiet 1000)\<lparr>startFell := True\<rparr>"
  let ?j = "(quiet 100)\<lparr>startFell := True\<rparr>"
  let ?s = "sys0\<lparr>state := (state sys0)\<lparr>manualPriority := True\<rparr>,
               scheduleCfg := default_schedule\<lparr>enabled := True, onHour := 11, offHour := 13\<rparr>\<rparr>"
  have pre: "startFell ?i" "\<not> stopFell ?i"
    "\<not> (ms_start_a ?i - lastOffMs sys0 \<ge> MIN_OFF_MS \<and> ms_start_b ?i \<ge> faultLockUntil sys0)"
    by (simp_all add: quiet_def sys0_def MIN_OFF_MS_def)
  have due: "startFell ?j" "ms_now ?j - lastSampleMs sys0 < 500" "ms_now ?j - lastNetMs sys0 < 5000"
    by (simp_all add: quiet_def sys0_def)
  have ok: "manualPriority (state ?s)"
    "evaluateFaults (thresholds ?s) (sV (readMeter (quiet 9000) ?s)) (sI (readMeter (quiet 9000) ?s))
       (sPF (readMeter (quiet 9000) ?s)) = FAULT_NONE"
    "\<not> relayPhysical (state ?s)"
    by (simp_all add: evaluateFaults_def readMeter_def quiet_def sys0_def default_thresholds_def
        isnan_def f_lt_def f_le_def f_gt_def)
  have off0: "\<not> relayPhysical (state sys0)"
    by (simp add: sys0_def)
  show ?thesis
    using manual_start_latches [of ?i sys0 lib0 "rtc ?i" "scheduleCfg sys0"]
      manual_start_latches [of ?j sys0 lib0 "rtc ?j" "scheduleCfg sys0"]
      manual_start_latches [of "quiet 9000" ?s lib0 "rtc (quiet 9000)" "scheduleCfg ?s"]
      pre due ok off0
    by simp
qed


subsection \<open>Readings the meter could not take\<close>

lemma nan_voltage_undervolt:
  assumes "isnan (pV i)" and "f_lt (Fin 0) (minVoltage (thresholds s))"
  shows "evaluateFaults (thresholds s) (sV (readMeter i s)) (sI (readMeter i s))
           (sPF (readMeter i s)) = FAULT_UNDERVOLT"
  using assms by (simp add: evaluateFaults_def readMeter_def)

lemma sampleStep_undervolt:
  assumes f: "evaluateFaults (thresholds s) (sV (readMeter i s)) (sI (readMeter i s))
           (sPF (readMeter i s)) = FAULT_UNDERVOLT"
  shows "lastFault (state (sampleStep L i s)) = ''UNDER VOLT''"
    and "\<not> relayPhysical (state (sampleStep L i s))"
    and "relayPhysical (state s) \<Longrightarrow> lastOffMs (sampleStep L i s) = ms_now i"
    and "relayPhysical (state s) \<Longrightarrow> faultLockUntil (sampleStep L i s) = ms_now i + FAULT_LOCK_MS"
    and "relayPhysical (state s) \<Longrightarrow> \<not> manualPriority (state (sampleStep L i s))"
proof -
  let ?s3 = "scheduleCommand i (readMeter i (s\<lparr>lastSampleMs := ms_now i\<rparr>))"
  have ne: "FAULT_UNDERVOLT \<noteq> FAULT_NONE"
    by simp
  have phys: "relayPhysical (state ?s3) = relayPhysical (state s)"
    by (simp add: scheduleCommand_sel readMeter_sel)
  have st: "state (sampleStep L i s) = state (protect L FAULT_UNDERVOLT (ms_now i) (ts i) ?s3)"
    by (simp add: sampleStep_state f)
  have tm: "lastOffMs (sampleStep L i s) = lastOffMs (protect L FAULT_UNDERVOLT (ms_now i) (ts i) ?s3)"
    "faultLockUntil (sampleStep L i s)
       = faultLockUntil (protect L FAULT_UNDERVOLT (ms_now i) (ts i) ?s3)"
    by (simp_all add: sampleStep_timers f)
  show "lastFault (state (sampleStep L i s)) = ''UNDER VOLT''"
  proof (cases "relayPhysical (state s)")
    case True
    then have "relayPhysical (state ?s3)" by (simp add: phys)
    then show ?thesis by (simp add: st protect_trip(1) [OF ne])
  next
    case False
    then have "\<not> relayPhysical (state ?s3)" by (simp add: phys)
    then show ?thesis by (simp add: st protect_fault_off [OF ne])
  qed
  show "\<not> relayPhysical (state (sampleStep L i s))"
  proof (cases "relayPhysical (state s)")
    case True
    then have "relayPhysical (state ?s3)" by (simp add: phys)
    then show ?thesis by (simp add: st protect_trip(1) [OF ne])
  next
    case False
    then have "\<not> relayPhysical (state ?s3)" by (simp add: phys)
    then show ?thesis by (simp add: st protect_fault_off [OF ne])
  qed
  show "lastOffMs (sampleStep L i s) = ms_now i" if "relayPhysical (state s)"
  proof -
    from that have "relayPhysical (state ?s3)" by (simp add: phys)
    then show ?thesis by (simp add: tm protect_trip(2) [OF ne])
  qed
  show "faultLockUntil (sampleStep L i s) = ms_now i + FAULT_LOCK_MS" if "relayPhysical (state s)"
  proof -
    from that have "relayPhysical (state ?s3)" by (simp add: phys)
    then show ?thesis by (simp add: tm protect_trip(3) [OF ne])
  qed
  show "\<not> manualPriority (state (sampleStep L i s))" if "relayPhysical (state s)"
  proof -
    from that have "relayPhysical (state ?s3)" by (simp add: phys)
    then show ?thesis by (simp add: st protect_trip(1) [OF ne])
  qed
qed

lemma running0_sel:
  "relayPhysical (state running0)" "thresholds running0 = default_thresholds"
  "lastOffMs running0 = 0" "faultLockUntil running0 = 0"
  by (simp_all add: running0_def setRelay_def sys0_def)

text \<open>
  C4 on the code. Lines 1069 to 1073 store 0 for a NaN voltage, current or power and 1
  for a NaN power factor, and line 1084 calls \<open>evaluateFaults\<close> on the stored sample
  with no validity check. The thresholds have \<open>minVoltage = 180\<close>, so the stored zero
  voltage is an undervoltage: with the pump running and every meter reading NaN, the
  step stores 0 V, reports \<open>UNDER VOLT\<close>, switches the relay off and starts the
  lockout. The older sketch of the repository tests \<open>voltage > 0\<close> before its voltage
  check (\<open>checkProtections\<close>, line 260); this one does not.
\<close>

theorem nan_voltage_trips_undervolt:
  "evaluateFaults default_thresholds (Fin 0) (Fin 0) (Fin 1) = FAULT_UNDERVOLT
   \<and> relayPhysical (state running0)
   \<and> sV (sampleStep lib0 (meterless 100000) running0) = Fin 0
   \<and> lastFault (state (sampleStep lib0 (meterless 100000) running0)) = ''UNDER VOLT''
   \<and> \<not> relayPhysical (state (sampleStep lib0 (meterless 100000) running0))
   \<and> faultLockUntil (sampleStep lib0 (meterless 100000) running0) = 130000"
proof -
  have nanV: "isnan (pV (meterless 100000))"
    by (simp add: meterless_def quiet_def isnan_def)
  have low: "f_lt (Fin 0) (minVoltage (thresholds running0))"
    by (simp add: running0_sel default_thresholds_def f_lt_def)
  note f = nan_voltage_undervolt [OF nanV low]
  have now: "ms_now (meterless 100000) = 100000"
    by (simp add: meterless_def quiet_def)
  have ev: "evaluateFaults default_thresholds (Fin 0) (Fin 0) (Fin 1) = FAULT_UNDERVOLT"
    by (simp add: evaluateFaults_def default_thresholds_def f_lt_def)
  show ?thesis
    using ev running0_sel(1) sampleStep_meter(1) [of lib0 "meterless 100000" running0] nanV
      sampleStep_undervolt(1,2) [OF f, of lib0]
      sampleStep_undervolt(4) [OF f running0_sel(1), of lib0] now
    by (simp add: FAULT_LOCK_MS_def)
qed

text \<open>
  The same for every state and every input. In every sampling step a NaN reading of
  voltage, current or power is stored as 0 and a NaN power factor as 1. The fault
  evaluator then runs on the stored sample: when the voltage reading is NaN and
  \<open>minVoltage\<close> is above 0, the step reports \<open>UNDER VOLT\<close> and the relay is off
  afterwards; if the relay was on, this is a trip that records \<open>lastOffMs\<close>, starts
  the lockout and clears the manual latch.
\<close>

theorem nan_sample_substitution:
  "(isnan (pV i) \<longrightarrow> sV (sampleStep L i s) = Fin 0)
   \<and> (isnan (pI i) \<longrightarrow> sI (sampleStep L i s) = Fin 0)
   \<and> (isnan (pP i) \<longrightarrow> sP (sampleStep L i s) = Fin 0)
   \<and> (isnan (pPF i) \<longrightarrow> sPF (sampleStep L i s) = Fin 1)
   \<and> (isnan (pV i) \<and> f_lt (Fin 0) (minVoltage (thresholds s)) \<longrightarrow>
        lastFault (state (sampleStep L i s)) = ''UNDER VOLT''
        \<and> \<not> relayPhysical (state (sampleStep L i s))
        \<and> (relayPhysical (state s) \<longrightarrow>
             lastOffMs (sampleStep L i s) = ms_now i
             \<and> faultLockUntil (sampleStep L i s) = ms_now i + FAULT_LOCK_MS
             \<and> \<not> manualPriority (state (sampleStep L i s))))"
proof -
  have trip: "lastFault (state (sampleStep L i s)) = ''UNDER VOLT''
        \<and> \<not> relayPhysical (state (sampleStep L i s))
        \<and> (relayPhysical (state s) \<longrightarrow>
             lastOffMs (sampleStep L i s) = ms_now i
             \<and> faultLockUntil (sampleStep L i s) = ms_now i + FAULT_LOCK_MS
             \<and> \<not> manualPriority (state (sampleStep L i s)))"
    if "isnan (pV i)" and "f_lt (Fin 0) (minVoltage (thresholds s))"
    using sampleStep_undervolt [OF nan_voltage_undervolt [OF that], of L] by blast
  from trip show ?thesis
    by (simp add: sampleStep_meter)
qed

text \<open>
  An instance: the pump runs, and at 60 s the meter loses the voltage and power factor
  readings only. The stored voltage is 0 and the step trips on undervoltage.
\<close>

theorem nan_sample_substitution_witness:
  "sV (sampleStep lib0 ((quiet 60000)\<lparr>pV := NaN, pPF := NaN\<rparr>) running0) = Fin 0
   \<and> sPF (sampleStep lib0 ((quiet 60000)\<lparr>pV := NaN, pPF := NaN\<rparr>) running0) = Fin 1
   \<and> lastFault (state (sampleStep lib0 ((quiet 60000)\<lparr>pV := NaN, pPF := NaN\<rparr>) running0))
       = ''UNDER VOLT''
   \<and> \<not> relayPhysical (state (sampleStep lib0 ((quiet 60000)\<lparr>pV := NaN, pPF := NaN\<rparr>) running0))
   \<and> lastOffMs (sampleStep lib0 ((quiet 60000)\<lparr>pV := NaN, pPF := NaN\<rparr>) running0) = 60000
   \<and> faultLockUntil (sampleStep lib0 ((quiet 60000)\<lparr>pV := NaN, pPF := NaN\<rparr>) running0) = 90000"
proof -
  let ?i = "(quiet 60000)\<lparr>pV := NaN, pPF := NaN\<rparr>"
  have pre: "isnan (pV ?i)" "isnan (pPF ?i)" "f_lt (Fin 0) (minVoltage (thresholds running0))"
    "ms_now ?i = 60000"
    by (simp_all add: quiet_def isnan_def running0_sel default_thresholds_def f_lt_def)
  show ?thesis
    using nan_sample_substitution [of ?i lib0 running0] pre running0_sel(1)
    by (simp add: FAULT_LOCK_MS_def)
qed


subsection \<open>Applying a fetched configuration\<close>

lemma jget_JNull: "jget JNull k = JNull"
  by (simp add: jget_def)

lemma jget_not_object: "\<not> is_object v \<Longrightarrow> jget v k = JNull"
  by (cases v) (simp_all add: jget_def is_object_def)

lemma getFieldDouble_path:
  "getFieldDouble L v ''config'' g c =
     (if cfg_field v g c ''doubleValue'' = JNull then None
      else Some (as_float L (cfg_field v g c ''doubleValue'')))"
  by (simp add: getFieldDouble_def cfg_field_def field_at_def Let_def isNull_def jget_JNull)

lemma getFieldInt_path:
  "getFieldInt L v ''config'' g c =
     (if cfg_field v g c ''integerValue'' = JNull then None
      else Some (atoi_cstr L (cfg_field v g c ''integerValue'')))"
  by (simp add: getFieldInt_def cfg_field_def field_at_def Let_def isNull_def jget_JNull)

lemma getFieldBool_path:
  "getFieldBool L v ''config'' g c =
     (if cfg_field v g c ''booleanValue'' = JNull then None
      else Some (as_bool L (cfg_field v g c ''booleanValue'')))"
  by (simp add: getFieldBool_def cfg_field_def field_at_def Let_def isNull_def jget_JNull
      jget_not_object)

lemma applyThresholds_sel:
  "maxCurrent_A (applyThresholds L v th) =
     (case getFieldDouble L v ''config'' ''thresholds'' ''maxCurrent_A'' of
        None \<Rightarrow> maxCurrent_A th | Some x \<Rightarrow> x)"
  "minPF (applyThresholds L v th) =
     (case getFieldDouble L v ''config'' ''thresholds'' ''minPF'' of
        None \<Rightarrow> minPF th | Some x \<Rightarrow> x)"
  "minCurrent_A (applyThresholds L v th) =
     (case getFieldDouble L v ''config'' ''thresholds'' ''minCurrent_A'' of
        None \<Rightarrow> minCurrent_A th | Some x \<Rightarrow> x)"
  "minVoltage (applyThresholds L v th) =
     (case getFieldDouble L v ''config'' ''thresholds'' ''minVoltage'' of
        None \<Rightarrow> minVoltage th | Some x \<Rightarrow> x)"
  "maxVoltage (applyThresholds L v th) =
     (case getFieldDouble L v ''config'' ''thresholds'' ''maxVoltage'' of
        None \<Rightarrow> maxVoltage th | Some x \<Rightarrow> x)"
  by (simp_all add: applyThresholds_def Let_def split: option.splits)

lemma applySchedule_sel:
  "enabled (applySchedule L v sc) =
     (case getFieldBool L v ''config'' ''schedule'' ''enabled'' of
        None \<Rightarrow> enabled sc | Some x \<Rightarrow> x)"
  "onHour (applySchedule L v sc) =
     (case getFieldInt L v ''config'' ''schedule'' ''onHour'' of
        None \<Rightarrow> onHour sc | Some x \<Rightarrow> x)"
  "onMinute (applySchedule L v sc) =
     (case getFieldInt L v ''config'' ''schedule'' ''onMinute'' of
        None \<Rightarrow> onMinute sc | Some x \<Rightarrow> x)"
  "offHour (applySchedule L v sc) =
     (case getFieldInt L v ''config'' ''schedule'' ''offHour'' of
        None \<Rightarrow> offHour sc | Some x \<Rightarrow> x)"
  "offMinute (applySchedule L v sc) =
     (case getFieldInt L v ''config'' ''schedule'' ''offMinute'' of
        None \<Rightarrow> offMinute sc | Some x \<Rightarrow> x)"
  "seasonStartMonth (applySchedule L v sc) =
     (case getFieldInt L v ''config'' ''schedule'' ''seasonStartMonth'' of
        None \<Rightarrow> seasonStartMonth sc | Some x \<Rightarrow> x)"
  "seasonEndMonth (applySchedule L v sc) =
     (case getFieldInt L v ''config'' ''schedule'' ''seasonEndMonth'' of
        None \<Rightarrow> seasonEndMonth sc | Some x \<Rightarrow> x)"
  by (simp_all add: applySchedule_def Let_def split: option.splits)

lemma applyControl_cfg:
  "thresholds (applyControl ctl s) = thresholds s"
  "scheduleCfg (applyControl ctl s) = scheduleCfg s"
  by (cases ctl; simp add: applyControl_def Let_def setRelay_def)+

lemma applyConfig_cfg:
  "thresholds (applyConfig L v s) = applyThresholds L v (thresholds s)"
  "scheduleCfg (applyConfig L v s) = applySchedule L v (scheduleCfg s)"
  by (simp_all add: applyConfig_def Let_def savePrefs_def split: option.splits)

lemma fetch_cfg:
  "thresholds (firestoreFetchAndApply L signIn got (Some v) s) =
     (if signIn \<and> got then applyThresholds L v (thresholds s) else thresholds s)"
  "scheduleCfg (firestoreFetchAndApply L signIn got (Some v) s) =
     (if signIn \<and> got then applySchedule L v (scheduleCfg s) else scheduleCfg s)"
  by (simp_all add: firestoreFetchAndApply_def applyControl_cfg applyConfig_cfg)


lemma maxCurrent_doc_fields:
  "cfg_field (maxCurrent_doc x) ''thresholds'' ''maxCurrent_A'' ''doubleValue'' = JNum x"
  "cfg_field (maxCurrent_doc x) ''thresholds'' ''minPF'' ''doubleValue'' = JNull"
  "cfg_field (maxCurrent_doc x) ''thresholds'' ''minCurrent_A'' ''doubleValue'' = JNull"
  "cfg_field (maxCurrent_doc x) ''thresholds'' ''minVoltage'' ''doubleValue'' = JNull"
  "cfg_field (maxCurrent_doc x) ''thresholds'' ''maxVoltage'' ''doubleValue'' = JNull"
  "cfg_field (maxCurrent_doc x) ''schedule'' c k = JNull"
  by (simp_all add: cfg_field_def field_at_def maxCurrent_doc_def jget_def)

lemma maxCurrent_doc_apply:
  "applyThresholds L (maxCurrent_doc x) th = th\<lparr>maxCurrent_A := as_float L (JNum x)\<rparr>"
  "applySchedule L (maxCurrent_doc x) sc = sc"
  by (simp_all add: applyThresholds_def applySchedule_def Let_def getFieldDouble_path
      getFieldInt_path getFieldBool_path maxCurrent_doc_fields)

text \<open>
  C7. \<open>firestoreFetchAndApply\<close> changes a threshold or schedule field only when the
  fetched document holds it. For each of the five thresholds and the seven schedule
  fields: when the field is absent from the document the local value is what it was,
  and when the fetch succeeded and the field is present the local value is the
  document's, converted. When the sign-in, the GET or the parse fails, thresholds and
  schedule are untouched. A fragment that carries only \<open>maxCurrent_A\<close> changes that one
  threshold and leaves the schedule and the other four thresholds as they were.
\<close>

theorem fetch_applies_present_fields_only:
  "(thresholds (firestoreFetchAndApply L signIn got None s) = thresholds s
    \<and> scheduleCfg (firestoreFetchAndApply L signIn got None s) = scheduleCfg s)
   \<and> (\<not> (signIn \<and> got) \<longrightarrow>
        thresholds (firestoreFetchAndApply L signIn got (Some v) s) = thresholds s
        \<and> scheduleCfg (firestoreFetchAndApply L signIn got (Some v) s) = scheduleCfg s)
   \<and> ((cfg_field v ''thresholds'' ''maxCurrent_A'' ''doubleValue'' = JNull \<longrightarrow>
        maxCurrent_A (thresholds (firestoreFetchAndApply L signIn got (Some v) s)) = maxCurrent_A (thresholds s))
    \<and> (signIn \<and> got \<and> cfg_field v ''thresholds'' ''maxCurrent_A'' ''doubleValue'' \<noteq> JNull \<longrightarrow>
        maxCurrent_A (thresholds (firestoreFetchAndApply L signIn got (Some v) s)) = as_float L (cfg_field v ''thresholds'' ''maxCurrent_A'' ''doubleValue'')))
   \<and> ((cfg_field v ''thresholds'' ''minPF'' ''doubleValue'' = JNull \<longrightarrow>
        minPF (thresholds (firestoreFetchAndApply L signIn got (Some v) s)) = minPF (thresholds s))
    \<and> (signIn \<and> got \<and> cfg_field v ''thresholds'' ''minPF'' ''doubleValue'' \<noteq> JNull \<longrightarrow>
        minPF (thresholds (firestoreFetchAndApply L signIn got (Some v) s)) = as_float L (cfg_field v ''thresholds'' ''minPF'' ''doubleValue'')))
   \<and> ((cfg_field v ''thresholds'' ''minCurrent_A'' ''doubleValue'' = JNull \<longrightarrow>
        minCurrent_A (thresholds (firestoreFetchAndApply L signIn got (Some v) s)) = minCurrent_A (thresholds s))
    \<and> (signIn \<and> got \<and> cfg_field v ''thresholds'' ''minCurrent_A'' ''doubleValue'' \<noteq> JNull \<longrightarrow>
        minCurrent_A (thresholds (firestoreFetchAndApply L signIn got (Some v) s)) = as_float L (cfg_field v ''thresholds'' ''minCurrent_A'' ''doubleValue'')))
   \<and> ((cfg_field v ''thresholds'' ''minVoltage'' ''doubleValue'' = JNull \<longrightarrow>
        minVoltage (thresholds (firestoreFetchAndApply L signIn got (Some v) s)) = minVoltage (thresholds s))
    \<and> (signIn \<and> got \<and> cfg_field v ''thresholds'' ''minVoltage'' ''doubleValue'' \<noteq> JNull \<longrightarrow>
        minVoltage (thresholds (firestoreFetchAndApply L signIn got (Some v) s)) = as_float L (cfg_field v ''thresholds'' ''minVoltage'' ''doubleValue'')))
   \<and> ((cfg_field v ''thresholds'' ''maxVoltage'' ''doubleValue'' = JNull \<longrightarrow>
        maxVoltage (thresholds (firestoreFetchAndApply L signIn got (Some v) s)) = maxVoltage (thresholds s))
    \<and> (signIn \<and> got \<and> cfg_field v ''thresholds'' ''maxVoltage'' ''doubleValue'' \<noteq> JNull \<longrightarrow>
        maxVoltage (thresholds (firestoreFetchAndApply L signIn got (Some v) s)) = as_float L (cfg_field v ''thresholds'' ''maxVoltage'' ''doubleValue'')))
   \<and> ((cfg_field v ''schedule'' ''enabled'' ''booleanValue'' = JNull \<longrightarrow>
        enabled (scheduleCfg (firestoreFetchAndApply L signIn got (Some v) s)) = enabled (scheduleCfg s))
    \<and> (signIn \<and> got \<and> cfg_field v ''schedule'' ''enabled'' ''booleanValue'' \<noteq> JNull \<longrightarrow>
        enabled (scheduleCfg (firestoreFetchAndApply L signIn got (Some v) s)) = as_bool L (cfg_field v ''schedule'' ''enabled'' ''booleanValue'')))
   \<and> ((cfg_field v ''schedule'' ''onHour'' ''integerValue'' = JNull \<longrightarrow>
        onHour (scheduleCfg (firestoreFetchAndApply L signIn got (Some v) s)) = onHour (scheduleCfg s))
    \<and> (signIn \<and> got \<and> cfg_field v ''schedule'' ''onHour'' ''integerValue'' \<noteq> JNull \<longrightarrow>
        onHour (scheduleCfg (firestoreFetchAndApply L signIn got (Some v) s)) = atoi_cstr L (cfg_field v ''schedule'' ''onHour'' ''integerValue'')))
   \<and> ((cfg_field v ''schedule'' ''onMinute'' ''integerValue'' = JNull \<longrightarrow>
        onMinute (scheduleCfg (firestoreFetchAndApply L signIn got (Some v) s)) = onMinute (scheduleCfg s))
    \<and> (signIn \<and> got \<and> cfg_field v ''schedule'' ''onMinute'' ''integerValue'' \<noteq> JNull \<longrightarrow>
        onMinute (scheduleCfg (firestoreFetchAndApply L signIn got (Some v) s)) = atoi_cstr L (cfg_field v ''schedule'' ''onMinute'' ''integerValue'')))
   \<and> ((cfg_field v ''schedule'' ''offHour'' ''integerValue'' = JNull \<longrightarrow>
        offHour (scheduleCfg (firestoreFetchAndApply L signIn got (Some v) s)) = offHour (scheduleCfg s))
    \<and> (signIn \<and> got \<and> cfg_field v ''schedule'' ''offHour'' ''integerValue'' \<noteq> JNull \<longrightarrow>
        offHour (scheduleCfg (firestoreFetchAndApply L signIn got (Some v) s)) = atoi_cstr L (cfg_field v ''schedule'' ''offHour'' ''integerValue'')))
   \<and> ((cfg_field v ''schedule'' ''offMinute'' ''integerValue'' = JNull \<longrightarrow>
        offMinute (scheduleCfg (firestoreFetchAndApply L signIn got (Some v) s)) = offMinute (scheduleCfg s))
    \<and> (signIn \<and> got \<and> cfg_field v ''schedule'' ''offMinute'' ''integerValue'' \<noteq> JNull \<longrightarrow>
        offMinute (scheduleCfg (firestoreFetchAndApply L signIn got (Some v) s)) = atoi_cstr L (cfg_field v ''schedule'' ''offMinute'' ''integerValue'')))
   \<and> ((cfg_field v ''schedule'' ''seasonStartMonth'' ''integerValue'' = JNull \<longrightarrow>
        seasonStartMonth (scheduleCfg (firestoreFetchAndApply L signIn got (Some v) s)) = seasonStartMonth (scheduleCfg s))
    \<and> (signIn \<and> got \<and> cfg_field v ''schedule'' ''seasonStartMonth'' ''integerValue'' \<noteq> JNull \<longrightarrow>
        seasonStartMonth (scheduleCfg (firestoreFetchAndApply L signIn got (Some v) s)) = atoi_cstr L (cfg_field v ''schedule'' ''seasonStartMonth'' ''integerValue'')))
   \<and> ((cfg_field v ''schedule'' ''seasonEndMonth'' ''integerValue'' = JNull \<longrightarrow>
        seasonEndMonth (scheduleCfg (firestoreFetchAndApply L signIn got (Some v) s)) = seasonEndMonth (scheduleCfg s))
    \<and> (signIn \<and> got \<and> cfg_field v ''schedule'' ''seasonEndMonth'' ''integerValue'' \<noteq> JNull \<longrightarrow>
        seasonEndMonth (scheduleCfg (firestoreFetchAndApply L signIn got (Some v) s)) = atoi_cstr L (cfg_field v ''schedule'' ''seasonEndMonth'' ''integerValue'')))
   \<and> (thresholds (firestoreFetchAndApply L True True (Some (maxCurrent_doc x)) s)
      = (thresholds s)\<lparr>maxCurrent_A := as_float L (JNum x)\<rparr>
    \<and> scheduleCfg (firestoreFetchAndApply L True True (Some (maxCurrent_doc x)) s) = scheduleCfg s)"
proof -
  have frame: "(thresholds (firestoreFetchAndApply L signIn got None s) = thresholds s
    \<and> scheduleCfg (firestoreFetchAndApply L signIn got None s) = scheduleCfg s)"
    by (simp add: firestoreFetchAndApply_def)
  have fail: "(\<not> (signIn \<and> got) \<longrightarrow>
        thresholds (firestoreFetchAndApply L signIn got (Some v) s) = thresholds s
        \<and> scheduleCfg (firestoreFetchAndApply L signIn got (Some v) s) = scheduleCfg s)"
    by (simp add: fetch_cfg)
  have f0: "((cfg_field v ''thresholds'' ''maxCurrent_A'' ''doubleValue'' = JNull \<longrightarrow>
        maxCurrent_A (thresholds (firestoreFetchAndApply L signIn got (Some v) s)) = maxCurrent_A (thresholds s))
    \<and> (signIn \<and> got \<and> cfg_field v ''thresholds'' ''maxCurrent_A'' ''doubleValue'' \<noteq> JNull \<longrightarrow>
        maxCurrent_A (thresholds (firestoreFetchAndApply L signIn got (Some v) s)) = as_float L (cfg_field v ''thresholds'' ''maxCurrent_A'' ''doubleValue'')))"
    by (simp add: fetch_cfg applyThresholds_sel applySchedule_sel getFieldDouble_path
        getFieldInt_path getFieldBool_path)
  have f1: "((cfg_field v ''thresholds'' ''minPF'' ''doubleValue'' = JNull \<longrightarrow>
        minPF (thresholds (firestoreFetchAndApply L signIn got (Some v) s)) = minPF (thresholds s))
    \<and> (signIn \<and> got \<and> cfg_field v ''thresholds'' ''minPF'' ''doubleValue'' \<noteq> JNull \<longrightarrow>
        minPF (thresholds (firestoreFetchAndApply L signIn got (Some v) s)) = as_float L (cfg_field v ''thresholds'' ''minPF'' ''doubleValue'')))"
    by (simp add: fetch_cfg applyThresholds_sel applySchedule_sel getFieldDouble_path
        getFieldInt_path getFieldBool_path)
  have f2: "((cfg_field v ''thresholds'' ''minCurrent_A'' ''doubleValue'' = JNull \<longrightarrow>
        minCurrent_A (thresholds (firestoreFetchAndApply L signIn got (Some v) s)) = minCurrent_A (thresholds s))
    \<and> (signIn \<and> got \<and> cfg_field v ''thresholds'' ''minCurrent_A'' ''doubleValue'' \<noteq> JNull \<longrightarrow>
        minCurrent_A (thresholds (firestoreFetchAndApply L signIn got (Some v) s)) = as_float L (cfg_field v ''thresholds'' ''minCurrent_A'' ''doubleValue'')))"
    by (simp add: fetch_cfg applyThresholds_sel applySchedule_sel getFieldDouble_path
        getFieldInt_path getFieldBool_path)
  have f3: "((cfg_field v ''thresholds'' ''minVoltage'' ''doubleValue'' = JNull \<longrightarrow>
        minVoltage (thresholds (firestoreFetchAndApply L signIn got (Some v) s)) = minVoltage (thresholds s))
    \<and> (signIn \<and> got \<and> cfg_field v ''thresholds'' ''minVoltage'' ''doubleValue'' \<noteq> JNull \<longrightarrow>
        minVoltage (thresholds (firestoreFetchAndApply L signIn got (Some v) s)) = as_float L (cfg_field v ''thresholds'' ''minVoltage'' ''doubleValue'')))"
    by (simp add: fetch_cfg applyThresholds_sel applySchedule_sel getFieldDouble_path
        getFieldInt_path getFieldBool_path)
  have f4: "((cfg_field v ''thresholds'' ''maxVoltage'' ''doubleValue'' = JNull \<longrightarrow>
        maxVoltage (thresholds (firestoreFetchAndApply L signIn got (Some v) s)) = maxVoltage (thresholds s))
    \<and> (signIn \<and> got \<and> cfg_field v ''thresholds'' ''maxVoltage'' ''doubleValue'' \<noteq> JNull \<longrightarrow>
        maxVoltage (thresholds (firestoreFetchAndApply L signIn got (Some v) s)) = as_float L (cfg_field v ''thresholds'' ''maxVoltage'' ''doubleValue'')))"
    by (simp add: fetch_cfg applyThresholds_sel applySchedule_sel getFieldDouble_path
        getFieldInt_path getFieldBool_path)
  have f5: "((cfg_field v ''schedule'' ''enabled'' ''booleanValue'' = JNull \<longrightarrow>
        enabled (scheduleCfg (firestoreFetchAndApply L signIn got (Some v) s)) = enabled (scheduleCfg s))
    \<and> (signIn \<and> got \<and> cfg_field v ''schedule'' ''enabled'' ''booleanValue'' \<noteq> JNull \<longrightarrow>
        enabled (scheduleCfg (firestoreFetchAndApply L signIn got (Some v) s)) = as_bool L (cfg_field v ''schedule'' ''enabled'' ''booleanValue'')))"
    by (simp add: fetch_cfg applyThresholds_sel applySchedule_sel getFieldDouble_path
        getFieldInt_path getFieldBool_path)
  have f6: "((cfg_field v ''schedule'' ''onHour'' ''integerValue'' = JNull \<longrightarrow>
        onHour (scheduleCfg (firestoreFetchAndApply L signIn got (Some v) s)) = onHour (scheduleCfg s))
    \<and> (signIn \<and> got \<and> cfg_field v ''schedule'' ''onHour'' ''integerValue'' \<noteq> JNull \<longrightarrow>
        onHour (scheduleCfg (firestoreFetchAndApply L signIn got (Some v) s)) = atoi_cstr L (cfg_field v ''schedule'' ''onHour'' ''integerValue'')))"
    by (simp add: fetch_cfg applyThresholds_sel applySchedule_sel getFieldDouble_path
        getFieldInt_path getFieldBool_path)
  have f7: "((cfg_field v ''schedule'' ''onMinute'' ''integerValue'' = JNull \<longrightarrow>
        onMinute (scheduleCfg (firestoreFetchAndApply L signIn got (Some v) s)) = onMinute (scheduleCfg s))
    \<and> (signIn \<and> got \<and> cfg_field v ''schedule'' ''onMinute'' ''integerValue'' \<noteq> JNull \<longrightarrow>
        onMinute (scheduleCfg (firestoreFetchAndApply L signIn got (Some v) s)) = atoi_cstr L (cfg_field v ''schedule'' ''onMinute'' ''integerValue'')))"
    by (simp add: fetch_cfg applyThresholds_sel applySchedule_sel getFieldDouble_path
        getFieldInt_path getFieldBool_path)
  have f8: "((cfg_field v ''schedule'' ''offHour'' ''integerValue'' = JNull \<longrightarrow>
        offHour (scheduleCfg (firestoreFetchAndApply L signIn got (Some v) s)) = offHour (scheduleCfg s))
    \<and> (signIn \<and> got \<and> cfg_field v ''schedule'' ''offHour'' ''integerValue'' \<noteq> JNull \<longrightarrow>
        offHour (scheduleCfg (firestoreFetchAndApply L signIn got (Some v) s)) = atoi_cstr L (cfg_field v ''schedule'' ''offHour'' ''integerValue'')))"
    by (simp add: fetch_cfg applyThresholds_sel applySchedule_sel getFieldDouble_path
        getFieldInt_path getFieldBool_path)
  have f9: "((cfg_field v ''schedule'' ''offMinute'' ''integerValue'' = JNull \<longrightarrow>
        offMinute (scheduleCfg (firestoreFetchAndApply L signIn got (Some v) s)) = offMinute (scheduleCfg s))
    \<and> (signIn \<and> got \<and> cfg_field v ''schedule'' ''offMinute'' ''integerValue'' \<noteq> JNull \<longrightarrow>
        offMinute (scheduleCfg (firestoreFetchAndApply L signIn got (Some v) s)) = atoi_cstr L (cfg_field v ''schedule'' ''offMinute'' ''integerValue'')))"
    by (simp add: fetch_cfg applyThresholds_sel applySchedule_sel getFieldDouble_path
        getFieldInt_path getFieldBool_path)
  have f10: "((cfg_field v ''schedule'' ''seasonStartMonth'' ''integerValue'' = JNull \<longrightarrow>
        seasonStartMonth (scheduleCfg (firestoreFetchAndApply L signIn got (Some v) s)) = seasonStartMonth (scheduleCfg s))
    \<and> (signIn \<and> got \<and> cfg_field v ''schedule'' ''seasonStartMonth'' ''integerValue'' \<noteq> JNull \<longrightarrow>
        seasonStartMonth (scheduleCfg (firestoreFetchAndApply L signIn got (Some v) s)) = atoi_cstr L (cfg_field v ''schedule'' ''seasonStartMonth'' ''integerValue'')))"
    by (simp add: fetch_cfg applyThresholds_sel applySchedule_sel getFieldDouble_path
        getFieldInt_path getFieldBool_path)
  have f11: "((cfg_field v ''schedule'' ''seasonEndMonth'' ''integerValue'' = JNull \<longrightarrow>
        seasonEndMonth (scheduleCfg (firestoreFetchAndApply L signIn got (Some v) s)) = seasonEndMonth (scheduleCfg s))
    \<and> (signIn \<and> got \<and> cfg_field v ''schedule'' ''seasonEndMonth'' ''integerValue'' \<noteq> JNull \<longrightarrow>
        seasonEndMonth (scheduleCfg (firestoreFetchAndApply L signIn got (Some v) s)) = atoi_cstr L (cfg_field v ''schedule'' ''seasonEndMonth'' ''integerValue'')))"
    by (simp add: fetch_cfg applyThresholds_sel applySchedule_sel getFieldDouble_path
        getFieldInt_path getFieldBool_path)
  have frag: "(thresholds (firestoreFetchAndApply L True True (Some (maxCurrent_doc x)) s)
      = (thresholds s)\<lparr>maxCurrent_A := as_float L (JNum x)\<rparr>
    \<and> scheduleCfg (firestoreFetchAndApply L True True (Some (maxCurrent_doc x)) s) = scheduleCfg s)"
    by (simp add: fetch_cfg maxCurrent_doc_apply)
  from frame fail f0 f1 f2 f3 f4 f5 f6 f7 f8 f9 f10 f11 frag show ?thesis
    by blast
qed


text \<open>
  Witness for C7: the fragment with \<open>maxCurrent_A = 7\<close> applied to the defaults. The
  overload limit becomes 7; the voltage limits and the schedule keep their defaults.
\<close>

theorem fetch_applies_present_fields_only_witness:
  "maxCurrent_A (thresholds (firestoreFetchAndApply lib0 True True (Some (maxCurrent_doc (Fin 7))) sys0))
     = Fin 7
   \<and> minVoltage (thresholds (firestoreFetchAndApply lib0 True True (Some (maxCurrent_doc (Fin 7))) sys0))
     = Fin 180
   \<and> maxVoltage (thresholds (firestoreFetchAndApply lib0 True True (Some (maxCurrent_doc (Fin 7))) sys0))
     = Fin 260
   \<and> onHour (scheduleCfg (firestoreFetchAndApply lib0 True True (Some (maxCurrent_doc (Fin 7))) sys0))
     = 6
   \<and> \<not> enabled (scheduleCfg (firestoreFetchAndApply lib0 True True (Some (maxCurrent_doc (Fin 7))) sys0))
   \<and> thresholds (firestoreFetchAndApply lib0 False True (Some (maxCurrent_doc (Fin 7))) sys0)
     = default_thresholds"
proof -
  have d: "thresholds sys0 = default_thresholds" "scheduleCfg sys0 = default_schedule"
    by (simp_all add: sys0_def)
  have c: "as_float lib0 (JNum (Fin 7)) = Fin 7"
    by (simp add: lib0_def)
  show ?thesis
    using fetch_applies_present_fields_only [where L = lib0 and signIn = True and got = True
        and s = sys0 and v = "maxCurrent_doc (Fin 7)"]
      fetch_applies_present_fields_only [where L = lib0 and signIn = False and got = True
        and s = sys0 and v = "maxCurrent_doc (Fin 7)"]
    by (simp add: maxCurrent_doc_fields d c default_thresholds_def default_schedule_def)
qed


subsection \<open>Draining the pending batch\<close>

lemma lines_of_step:
  "content \<noteq> [] \<Longrightarrow>
   lines_of content = fst (readStringUntil nl content) # lines_of (snd (readStringUntil nl content))"
proof (induction content)
  case Nil
  then show ?case by simp
next
  case (Cons c cs)
  show ?case
  proof (cases "c = nl")
    case True
    then show ?thesis by (simp add: readStringUntil_def)
  next
    case False
    show ?thesis
    proof (cases "cs = []")
      case True
      with False show ?thesis by (simp add: readStringUntil_def)
    next
      case ne: False
      from Cons.IH [OF ne] False show ?thesis
        by (simp add: readStringUntil_def)
    qed
  qed
qed

lemma log_entries_Nil: "log_entries L [] = []"
  by (simp add: log_entries_def map_filter_simps)

lemma log_entries_step:
  assumes "content \<noteq> []"
  shows "log_entries L content =
     (if length (fst (readStringUntil nl content)) < 5
      then log_entries L (snd (readStringUntil nl content))
      else (case deserializeJson L (fst (readStringUntil nl content)) of
              None \<Rightarrow> log_entries L (snd (readStringUntil nl content))
            | Some d \<Rightarrow> d # log_entries L (snd (readStringUntil nl content))))"
  by (simp add: log_entries_def lines_of_step [OF assms] map_filter_simps split: option.splits)

lemma uploadPending_Nil: "uploadPending L post k [] = []"
  by (subst uploadPending.simps) simp

lemma uploadPending_bodies:
  "map fst (uploadPending L post k content) = map upload_body (log_entries L content)"
proof (induction L post k content rule: uploadPending.induct)
  case (1 L post k content)
  show ?case
  proof (cases "content = []")
    case True
    then show ?thesis by (simp add: log_entries_Nil uploadPending_Nil)
  next
    case False
    then show ?thesis
      using "1.IH" by (subst uploadPending.simps) (simp add: log_entries_step split: option.splits)
  qed
qed

lemma uploadPending_flags:
  "map snd (uploadPending L post k content) =
     map (\<lambda>j. httpOK (post j)) [k ..< k + length (log_entries L content)]"
proof (induction L post k content rule: uploadPending.induct)
  case (1 L post k content)
  let ?line = "fst (readStringUntil nl content)"
  let ?rest = "snd (readStringUntil nl content)"
  show ?case
  proof (cases "content = []")
    case True
    then show ?thesis by (simp add: log_entries_Nil uploadPending_Nil)
  next
    case ne: False
    show ?thesis
    proof (cases "length ?line < 5")
      case True
      have "uploadPending L post k content = uploadPending L post k ?rest"
        using ne True by (subst uploadPending.simps) simp
      moreover have "log_entries L content = log_entries L ?rest"
        using True by (simp add: log_entries_step [OF ne])
      ultimately show ?thesis
        using "1.IH"(1) [OF ne True] by simp
    next
      case long: False
      show ?thesis
      proof (cases "deserializeJson L ?line")
        case None
        have "uploadPending L post k content = uploadPending L post k ?rest"
          using ne long None by (subst uploadPending.simps) simp
        moreover have "log_entries L content = log_entries L ?rest"
          using long None by (simp add: log_entries_step [OF ne])
        ultimately show ?thesis
          using "1.IH"(2) [OF ne long None] by simp
      next
        case (Some d)
        have u: "uploadPending L post k content =
                   (upload_body d, httpOK (post k)) # uploadPending L post (Suc k) ?rest"
          using ne long Some by (subst uploadPending.simps) simp
        have e: "log_entries L content = d # log_entries L ?rest"
          using long Some by (simp add: log_entries_step [OF ne])
        have b: "Suc k + length (log_entries L ?rest) = k + Suc (length (log_entries L ?rest))"
          by simp
        have r: "[k ..< k + Suc (length (log_entries L ?rest))]
                 = k # [Suc k ..< k + Suc (length (log_entries L ?rest))]"
          by (rule upt_conv_Cons) simp
        show ?thesis
          using "1.IH"(3) [OF ne long Some]
          by (simp only: u e r b list.map snd_conv length_Cons)
      qed
    qed
  qed
qed

lemma uploadPending_zip:
  "uploadPending L post 0 content =
     zip (map upload_body (log_entries L content))
         (map (\<lambda>j. httpOK (post j)) [0 ..< length (log_entries L content)])"
proof -
  have "uploadPending L post 0 content =
          zip (map fst (uploadPending L post 0 content)) (map snd (uploadPending L post 0 content))"
    by (simp add: zip_map_fst_snd)
  then show ?thesis
    by (simp add: uploadPending_bodies uploadPending_flags)
qed

lemma fetch_keeps_files:
  "fs (firestoreFetchAndApply L a b d s) = fs s"
  "synced (firestoreFetchAndApply L a b d s) = synced s"
proof -
  have ctl: "fs (applyControl c x) = fs x" "synced (applyControl c x) = synced x" for c x
    by (cases c; simp add: applyControl_def Let_def setRelay_def)+
  have cfg: "fs (applyConfig L v x) = fs x" "synced (applyConfig L v x) = synced x" for v x
    by (simp_all add: applyConfig_def Let_def savePrefs_def split: option.splits)
  show "fs (firestoreFetchAndApply L a b d s) = fs s"
    by (simp add: firestoreFetchAndApply_def ctl cfg split: option.splits)
  show "synced (firestoreFetchAndApply L a b d s) = synced s"
    by (simp add: firestoreFetchAndApply_def ctl cfg split: option.splits)
qed

lemma syncPending_drains:
  assumes "fs_open_read (fs s) LOG_PENDING = Some content"
  shows "files (fs (syncPending L post s)) LOG_PENDING = None"
    and "synced (syncPending L post s) = synced s @ map fst (filter snd (uploadPending L post 0 content))"
  using assms
  by (simp_all add: syncPending_def fs_exists_def fs_remove_def fs_open_read_def split: if_splits)


lemma netCycle_online:
  assumes "wifi_up i" and "signIn_loop i"
  shows "netCycle L i s =
     syncPending L (post_code i)
       (firestoreFetchAndApply L (signIn_fetch i) (get_ok i) (doc i) (s\<lparr>lastNetMs := ms_now i\<rparr>))"
  using assms by (simp add: netCycle_def Let_def)

lemma netCycle_drains:
  assumes "wifi_up i" and "signIn_loop i" and "fs_open_read (fs s) LOG_PENDING = Some content"
  shows "files (fs (netCycle L i s)) LOG_PENDING = None"
    and "synced (netCycle L i s) =
           synced s @ map fst (filter snd (uploadPending L (post_code i) 0 content))"
proof -
  let ?s = "firestoreFetchAndApply L (signIn_fetch i) (get_ok i) (doc i) (s\<lparr>lastNetMs := ms_now i\<rparr>)"
  have p: "fs_open_read (fs ?s) LOG_PENDING = Some content"
    using assms(3) by (simp add: fetch_keeps_files)
  show "files (fs (netCycle L i s)) LOG_PENDING = None"
    by (simp add: netCycle_online [OF assms(1,2)] syncPending_drains(1) [OF p])
  show "synced (netCycle L i s) =
           synced s @ map fst (filter snd (uploadPending L (post_code i) 0 content))"
    by (simp add: netCycle_online [OF assms(1,2)] syncPending_drains(2) [OF p] fetch_keeps_files)
qed

lemma one_pending_entries:
  "log_entries lib0 (log_line ''2025-06-01T06:30:00Z'' ''run'' ''start'') =
     [JObj [(''ts'', JStr ''2025-06-01T06:30:00Z''), (''type'', JStr ''run''),
            (''msg'', JStr ''start'')]]"
  by (simp add: log_entries_def log_line_def parse_log_line_def lib0_def dq_def nl_def
      map_filter_simps)

lemma one_pending_file:
  "fs_open_read (fs one_pending) LOG_PENDING
     = Some (log_line ''2025-06-01T06:30:00Z'' ''run'' ''start'')"
  "synced one_pending = []"
  by (simp_all add: one_pending_def fs_open_read_def sys0_def)


text \<open>
  C2, as stated, fails: the loop of lines 1144 to 1160 drops what \<open>httpPOST\<close> returns,
  and line 1162 removes the batch after the loop in every case. Here the pending batch
  holds one entry and the remote service answers 500: the upload is not accepted, yet
  after the network cycle the batch is gone and nothing has reached the service.
\<close>

theorem rejected_upload_loses_batch:
  "fs_exists (fs one_pending) LOG_PENDING
   \<and> log_entries lib0 (log_line ''2025-06-01T06:30:00Z'' ''run'' ''start'') =
       [JObj [(''ts'', JStr ''2025-06-01T06:30:00Z''), (''type'', JStr ''run''),
              (''msg'', JStr ''start'')]]
   \<and> map snd (uploadPending lib0 (post_code (rejecting 5000)) 0
         (log_line ''2025-06-01T06:30:00Z'' ''run'' ''start'')) = [False]
   \<and> \<not> fs_exists (fs (netCycle lib0 (rejecting 5000) one_pending)) LOG_PENDING
   \<and> synced (netCycle lib0 (rejecting 5000) one_pending) = []"
proof -
  have i: "wifi_up (rejecting 5000)" "signIn_loop (rejecting 5000)"
    "post_code (rejecting 5000) = (\<lambda>k. 500)"
    by (simp_all add: rejecting_def online_def quiet_def)
  have ex: "fs_exists (fs one_pending) LOG_PENDING"
    by (simp add: fs_exists_def one_pending_file)
  have flags: "map snd (uploadPending lib0 (post_code (rejecting 5000)) 0
         (log_line ''2025-06-01T06:30:00Z'' ''run'' ''start'')) = [False]"
    by (simp add: uploadPending_flags one_pending_entries i httpOK_def)
  have "set (map snd (uploadPending lib0 (post_code (rejecting 5000)) 0
         (log_line ''2025-06-01T06:30:00Z'' ''run'' ''start''))) = {False}"
    by (simp only: flags list.set)
  then have "\<forall>x \<in> set (uploadPending lib0 (post_code (rejecting 5000)) 0
         (log_line ''2025-06-01T06:30:00Z'' ''run'' ''start'')). \<not> snd x"
    by auto
  then have none: "filter snd (uploadPending lib0 (post_code (rejecting 5000)) 0
         (log_line ''2025-06-01T06:30:00Z'' ''run'' ''start'')) = []"
    by (simp add: filter_empty_conv)
  have gone: "files (fs (netCycle lib0 (rejecting 5000) one_pending)) LOG_PENDING = None"
    by (rule netCycle_drains(1) [OF i(1,2) one_pending_file(1)])
  have lost: "synced (netCycle lib0 (rejecting 5000) one_pending) = []"
    by (simp add: netCycle_drains(2) [OF i(1,2) one_pending_file(1)] one_pending_file none)
  from ex one_pending_entries flags gone lost show ?thesis
    by (simp add: fs_exists_def fs_open_read_def)
qed

text \<open>
  C2, amended. In a network cycle with the Wi-Fi up and the sign-in done, a pending
  batch that opens is read line by line; every entry (a line of five bytes or more that
  parses) gets one POST of its own, in file order, the \<open>j\<close>-th POST carrying the \<open>j\<close>-th
  entry. The batch file is removed after the pass whatever the service answered. The
  service holds the entries whose POST it accepted; an entry whose POST it rejected is
  not retried.
\<close>

theorem sync_posts_each_entry_then_removes_batch:
  "(fs_open_read (fs s) LOG_PENDING = Some content \<longrightarrow>
      uploadPending L post 0 content =
        zip (map upload_body (log_entries L content))
            (map (\<lambda>j. httpOK (post j)) [0 ..< length (log_entries L content)])
      \<and> files (fs (syncPending L post s)) LOG_PENDING = None
      \<and> synced (syncPending L post s) =
          synced s @ map fst (filter snd
            (zip (map upload_body (log_entries L content))
                 (map (\<lambda>j. httpOK (post j)) [0 ..< length (log_entries L content)]))))
   \<and> (wifi_up i \<and> signIn_loop i \<and> fs_open_read (fs s) LOG_PENDING = Some content \<longrightarrow>
      files (fs (netCycle L i s)) LOG_PENDING = None
      \<and> synced (netCycle L i s) =
          synced s @ map fst (filter snd
            (zip (map upload_body (log_entries L content))
                 (map (\<lambda>j. httpOK (post_code i j)) [0 ..< length (log_entries L content)]))))"
proof -
  have a: "uploadPending L post 0 content =
        zip (map upload_body (log_entries L content))
            (map (\<lambda>j. httpOK (post j)) [0 ..< length (log_entries L content)])
      \<and> files (fs (syncPending L post s)) LOG_PENDING = None
      \<and> synced (syncPending L post s) =
          synced s @ map fst (filter snd
            (zip (map upload_body (log_entries L content))
                 (map (\<lambda>j. httpOK (post j)) [0 ..< length (log_entries L content)])))"
    if p: "fs_open_read (fs s) LOG_PENDING = Some content"
    using syncPending_drains [OF p, of L post] uploadPending_zip [of L post content] by simp
  have b: "files (fs (netCycle L i s)) LOG_PENDING = None
      \<and> synced (netCycle L i s) =
          synced s @ map fst (filter snd
            (zip (map upload_body (log_entries L content))
                 (map (\<lambda>j. httpOK (post_code i j)) [0 ..< length (log_entries L content)])))"
    if "wifi_up i" and "signIn_loop i" and "fs_open_read (fs s) LOG_PENDING = Some content"
    using netCycle_drains [OF that, of L] uploadPending_zip [of L "post_code i" content] by simp
  from a b show ?thesis
    by blast
qed

text \<open>
  Witness for C2 (amended): the batch of one entry with a service that accepts. The
  entry is posted, the service holds it, and the batch is removed.
\<close>

theorem sync_posts_each_entry_then_removes_batch_witness:
  "files (fs (netCycle lib0 (online 5000 (JObj [])) one_pending)) LOG_PENDING = None
   \<and> synced (netCycle lib0 (online 5000 (JObj [])) one_pending) =
       [upload_body (JObj [(''ts'', JStr ''2025-06-01T06:30:00Z''), (''type'', JStr ''run''),
                           (''msg'', JStr ''start'')])]
   \<and> files (fs (syncPending lib0 (\<lambda>k. 200) one_pending)) LOG_PENDING = None"
proof -
  have i: "wifi_up (online 5000 (JObj []))" "signIn_loop (online 5000 (JObj []))"
    "post_code (online 5000 (JObj [])) = (\<lambda>k. 200)"
    by (simp_all add: online_def quiet_def)
  show ?thesis
    using sync_posts_each_entry_then_removes_batch [of one_pending
        "log_line ''2025-06-01T06:30:00Z'' ''run'' ''start''" lib0 "\<lambda>k. 200"
        "online 5000 (JObj [])"]
      i one_pending_file
    by (simp add: one_pending_entries httpOK_def)
qed


subsection \<open>Whole passes on concrete inputs\<close>

lemmas step_defs = loop_def buttons_def startButton_def stopButton_def sampleStep_def
  readMeter_def scheduleCommand_def protect_def healthNote_def runtimeAccounting_def
  netCycle_def firestoreFetchAndApply_def applyConfig_def applyControl_def readControl_def
  setRelay_def savePrefs_def applyThresholds_def applySchedule_def getFieldDouble_def
  getFieldDouble1_def getFieldInt_def getFieldBool_def jget_def isNull_def is_object_def
  syncPending_def fs_exists_def fs_open_read_def fs_remove_def fs_rename_def appendLog_def
  rotateLogsIfTooBig_def connectWiFi_def estimateEfficiency_def evaluateFaults_def
  isWithinOnWindow_def seasonAllows_def f_lt_def f_le_def f_gt_def f_mul_def f_div_def
  isnan_def MIN_OFF_MS_def FAULT_LOCK_MS_def RELAY_ACTIVE_LOW_def LOG_PATH_def
  LOG_PENDING_def maxBytes_default_def

lemmas example_defs = online_def quiet_def sys0_def control_doc_def lib0_def
  default_thresholds_def default_schedule_def pump_on_def

text \<open>
  C1 on the code. The pump runs; at 100 s the meter reads 150 V and the sampling step
  trips: relay off, \<open>lastOffMs = 100000\<close>, \<open>faultLockUntil = 130000\<close>. Two seconds
  later the reading is healthy again and the network cycle fetches a document with
  \<open>forceOn\<close> set. Line 965 calls \<open>setRelay(true)\<close> without the test the START button
  (line 1042) and the schedule (line 1098) make: the relay is on again at 102 s, inside
  both the anti-chatter time and the lockout.
\<close>

theorem remote_forceOn_ignores_gates:
  "relayPhysical (state pump_on)
   \<and> \<not> relayPhysical (state (loop lib0 ((quiet 100000)\<lparr>pV := Fin 150\<rparr>) pump_on))
   \<and> lastOffMs (loop lib0 ((quiet 100000)\<lparr>pV := Fin 150\<rparr>) pump_on) = 100000
   \<and> faultLockUntil (loop lib0 ((quiet 100000)\<lparr>pV := Fin 150\<rparr>) pump_on) = 130000
   \<and> relayPhysical (state (run lib0
         [(quiet 100000)\<lparr>pV := Fin 150\<rparr>, online 102000 (control_doc True False False)] pump_on))
   \<and> lastOffMs (run lib0
         [(quiet 100000)\<lparr>pV := Fin 150\<rparr>, online 102000 (control_doc True False False)] pump_on)
       = 100000
   \<and> faultLockUntil (run lib0
         [(quiet 100000)\<lparr>pV := Fin 150\<rparr>, online 102000 (control_doc True False False)] pump_on)
       = 130000
   \<and> ms_now (online 102000 (control_doc True False False)) - 100000 < MIN_OFF_MS
   \<and> ms_now (online 102000 (control_doc True False False)) < 130000"
proof -
  have first: "\<not> relayPhysical (state (loop lib0 ((quiet 100000)\<lparr>pV := Fin 150\<rparr>) pump_on))
     \<and> lastOffMs (loop lib0 ((quiet 100000)\<lparr>pV := Fin 150\<rparr>) pump_on) = 100000
     \<and> faultLockUntil (loop lib0 ((quiet 100000)\<lparr>pV := Fin 150\<rparr>) pump_on) = 130000"
    by (simp add: step_defs example_defs)
  have second: "relayPhysical (state (run lib0
         [(quiet 100000)\<lparr>pV := Fin 150\<rparr>, online 102000 (control_doc True False False)] pump_on))
     \<and> lastOffMs (run lib0
         [(quiet 100000)\<lparr>pV := Fin 150\<rparr>, online 102000 (control_doc True False False)] pump_on)
       = 100000
     \<and> faultLockUntil (run lib0
         [(quiet 100000)\<lparr>pV := Fin 150\<rparr>, online 102000 (control_doc True False False)] pump_on)
       = 130000"
    by (simp add: step_defs example_defs)
  have start: "relayPhysical (state pump_on)"
    by (simp add: pump_on_def setRelay_def)
  have times: "ms_now (online 102000 (control_doc True False False)) - 100000 < MIN_OFF_MS"
    "ms_now (online 102000 (control_doc True False False)) < 130000"
    by (simp_all add: online_def quiet_def MIN_OFF_MS_def)
  from start first second times show ?thesis
    by (intro conjI) (erule conjunct1 conjunct2 | assumption | (drule conjunct2, erule conjunct1 conjunct2))+
qed


text \<open>
  C3 on the code. The pump runs with \<open>lastOffMs = 0\<close>. At 102 s the network cycle
  fetches a document with \<open>forceOff\<close> set; line 969 calls \<open>setRelay(false)\<close> and, unlike
  the STOP button (line 1052), the schedule (line 1102) and the fault trip (line 1090),
  does not write \<open>lastOffMs\<close>: the relay is off and \<open>lastOffMs\<close> is still 0. Half a
  second later START falls; the anti-chatter test measures from 0 and lets the relay
  on again.
\<close>

theorem remote_forceOff_keeps_lastOffMs:
  "relayPhysical (state pump_on)
   \<and> lastOffMs pump_on = 0
   \<and> ms_now (online 102000 (control_doc False True False)) = 102000
   \<and> \<not> relayPhysical (state (loop lib0 (online 102000 (control_doc False True False)) pump_on))
   \<and> lastOffMs (loop lib0 (online 102000 (control_doc False True False)) pump_on) = 0
   \<and> relayPhysical (state (run lib0
         [online 102000 (control_doc False True False), (quiet 102500)\<lparr>startFell := True\<rparr>]
         pump_on))"
proof -
  have start: "relayPhysical (state pump_on) \<and> lastOffMs pump_on = 0
     \<and> ms_now (online 102000 (control_doc False True False)) = 102000"
    by (simp add: pump_on_def setRelay_def sys0_def online_def quiet_def)
  have first: "\<not> relayPhysical (state (loop lib0 (online 102000 (control_doc False True False)) pump_on))
     \<and> lastOffMs (loop lib0 (online 102000 (control_doc False True False)) pump_on) = 0"
    by (simp add: step_defs example_defs)
  have second: "relayPhysical (state (run lib0
         [online 102000 (control_doc False True False), (quiet 102500)\<lparr>startFell := True\<rparr>]
         pump_on))"
    by (simp add: step_defs example_defs)
  from start first second show ?thesis
    by blast
qed


subsection \<open>The transitions made by the buttons and by the sampling step\<close>

text \<open>
  The two requesters inside \<open>loop\<close> keep the timing rules: the START button and the
  schedule switch the relay on only through the anti-chatter and lockout test, and
  every switch-off by the STOP button, the schedule or a fault trip writes \<open>lastOffMs\<close>.
\<close>

lemma protect_on_gated:
  assumes "\<not> relayPhysical (state s)" and "relayPhysical (state (protect L fault n t s))"
  shows "n - lastOffMs s \<ge> MIN_OFF_MS \<and> n \<ge> faultLockUntil s"
  using assms by (auto simp: protect_def Let_def setRelay_def split: if_splits)

lemma protect_off_recorded:
  assumes "relayPhysical (state s)" and "\<not> relayPhysical (state (protect L fault n t s))"
  shows "lastOffMs (protect L fault n t s) = n"
  using assms by (auto simp: protect_def Let_def setRelay_def split: if_splits)

lemma buttons_on_gated:
  assumes "\<not> relayPhysical (state s)" and "relayPhysical (state (buttons i s))"
  shows "startFell i \<and> ms_start_a i - lastOffMs s \<ge> MIN_OFF_MS \<and> ms_start_b i \<ge> faultLockUntil s"
  using assms
  by (auto simp: buttons_def startButton_def stopButton_def Let_def setRelay_def split: if_splits)

lemma buttons_off_recorded:
  assumes "relayPhysical (state s)" and "\<not> relayPhysical (state (buttons i s))"
  shows "lastOffMs (buttons i s) = ms_stop i"
  using assms
  by (auto simp: buttons_def startButton_def stopButton_def Let_def setRelay_def split: if_splits)

lemma sampleStep_on_gated:
  assumes "\<not> relayPhysical (state s)" and "relayPhysical (state (sampleStep L i s))"
  shows "ms_now i - lastOffMs s \<ge> MIN_OFF_MS \<and> ms_now i \<ge> faultLockUntil s"
proof -
  let ?s3 = "scheduleCommand i (readMeter i (s\<lparr>lastSampleMs := ms_now i\<rparr>))"
  have off: "\<not> relayPhysical (state ?s3)"
    using assms(1) by (simp add: scheduleCommand_sel readMeter_sel)
  have "ms_now i - lastOffMs ?s3 \<ge> MIN_OFF_MS \<and> ms_now i \<ge> faultLockUntil ?s3"
    using assms(2) unfolding sampleStep_state by (rule protect_on_gated [OF off])
  then show ?thesis
    by (simp add: scheduleCommand_sel readMeter_sel)
qed

lemma sampleStep_off_recorded:
  assumes "relayPhysical (state s)" and "\<not> relayPhysical (state (sampleStep L i s))"
  shows "lastOffMs (sampleStep L i s) = ms_now i"
proof -
  let ?s3 = "scheduleCommand i (readMeter i (s\<lparr>lastSampleMs := ms_now i\<rparr>))"
  have on: "relayPhysical (state ?s3)"
    using assms(1) by (simp add: scheduleCommand_sel readMeter_sel)
  show ?thesis
    using assms(2) unfolding sampleStep_state sampleStep_timers
    by (rule protect_off_recorded [OF on])
qed

end
